theory Spec2Isabelle
  imports Main "HOL-Library.AList"
begin

section \<open>JavaScript values\<close>

text \<open>
  The session payload, the request body and the cookie value are plain JavaScript
  values. Objects are association lists of property name and value, read with
  \<open>map_of\<close> and written with \<open>AList.update\<close>.
\<close>

datatype jsval =
    JUndefined
  | JNull
  | JBool bool
  | JNum int
  | JStr string
  | JObj "(string \<times> jsval) list"

datatype error =
    TypeError
  | AssertionError
  | Unauthorized string

text \<open>The truth value JavaScript gives a value in \<open>if (v)\<close>, \<open>a && b\<close> and \<open>!!v\<close>.\<close>

fun truthy :: "jsval \<Rightarrow> bool" where
  "truthy JUndefined = False"
| "truthy JNull = False"
| "truthy (JBool b) = b"
| "truthy (JNum n) = (n \<noteq> 0)"
| "truthy (JStr s) = (s \<noteq> [])"
| "truthy (JObj fs) = True"

fun nullish :: "jsval \<Rightarrow> bool" where
  "nullish JUndefined = True"
| "nullish JNull = True"
| "nullish v = False"

text \<open>Reading \<open>v.k\<close> where \<open>v\<close> is neither \<open>undefined\<close> nor \<open>null\<close>: an absent
  property, and any property of a primitive, reads as \<open>undefined\<close>.\<close>

fun get_prop :: "jsval \<Rightarrow> string \<Rightarrow> jsval" where
  "get_prop (JObj fs) k = (case map_of fs k of Some v \<Rightarrow> v | None \<Rightarrow> JUndefined)"
| "get_prop v k = JUndefined"

text \<open>The expression \<open>v.k\<close>: a TypeError when \<open>v\<close> is \<open>undefined\<close> or \<open>null\<close>.\<close>

definition read_prop :: "jsval \<Rightarrow> string \<Rightarrow> error + jsval" where
  "read_prop v k = (if nullish v then Inl TypeError else Inr (get_prop v k))"

text \<open>The statement \<open>v.k = x\<close>: a TypeError on \<open>undefined\<close> and \<open>null\<close>, silently
  without effect on a primitive.\<close>

fun assign :: "jsval \<Rightarrow> string \<Rightarrow> jsval \<Rightarrow> error + jsval" where
  "assign (JObj fs) k x = Inr (JObj (AList.update k x fs))"
| "assign JUndefined k x = Inl TypeError"
| "assign JNull k x = Inl TypeError"
| "assign v k x = Inr v"

section \<open>Constants of \<open>bootstrap\<close>\<close>

definition oneDay :: nat where
  "oneDay = 86400000"

definition segment :: string where
  "segment = ''myyar''"

definition cookie :: string where
  "cookie = ''my-yar-cookie''"

text \<open>The options the session plugin is registered with (lines 59 to 73).\<close>

record yar_options =
  opt_name :: string
  opt_maxCookieSize :: nat
  opt_segment :: string
  opt_expiresIn :: nat
  opt_cookie_ttl :: nat

definition options :: yar_options where
  "options = \<lparr> opt_name = cookie, opt_maxCookieSize = 0, opt_segment = segment,
               opt_expiresIn = oneDay, opt_cookie_ttl = oneDay \<rparr>"

section \<open>Cache, cookies and the session store\<close>

type_synonym session_id = string
type_synonym full_id = "string \<times> session_id"

record cache_entry =
  item :: "(string \<times> jsval) list"
  ttl :: nat

type_synonym cache = "full_id \<rightharpoonup> cache_entry"

text \<open>
  Modelled from the spec: the Session Cache (the catbox-redis client, an external
  collaborator): a key-value store with a time to live per entry, with get, set and
  delete by namespace and id. \<open>cache.get\<close> resolves to the stored envelope or to
  \<open>null\<close>; \<open>cache.set\<close> replaces the entry and its time to live in one step. Times
  to live are recorded, the clock is not: an entry leaves the cache by an explicit
  eviction step.
\<close>

definition cache_get :: "cache \<Rightarrow> full_id \<Rightarrow> cache_entry option" where
  "cache_get c fid = c fid"

definition cache_set :: "cache \<Rightarrow> full_id \<Rightarrow> (string \<times> jsval) list \<Rightarrow> nat \<Rightarrow> cache" where
  "cache_set c fid v t = c(fid \<mapsto> \<lparr> item = v, ttl = t \<rparr>)"

definition cache_drop :: "cache \<Rightarrow> full_id \<Rightarrow> cache" where
  "cache_drop c fid = c(fid := None)"

text \<open>
  Modelled from the spec: the cookie write of the pipeline. A cookie is set with
  \<open>h.state(name, value, {ttl})\<close>; a later call for the same name replaces the earlier
  one.
\<close>

record cookie_state =
  cvalue :: jsval
  cttl :: nat

type_synonym states = "string \<rightharpoonup> cookie_state"

definition h_state :: "states \<Rightarrow> string \<Rightarrow> jsval \<Rightarrow> nat \<Rightarrow> states" where
  "h_state st n v t = st(n \<mapsto> \<lparr> cvalue = v, cttl = t \<rparr>)"

text \<open>What the hooks and the store do to the cache and the cookies, in the order they
  do it.\<close>

datatype event =
    AuthRejected error
  | HandlerCalled bool
  | FlushSet full_id nat
  | FlushDrop full_id
  | FlushCookie string nat
  | HookGet full_id
  | HookCookie string nat
  | CallbackSet full_id nat

text \<open>The request as the pipeline hands it over: \<open>req_cookie\<close> is the session id the
  client's cookie decodes to, \<open>req_uuid\<close> the identifier the store draws when the client
  sent none.\<close>

record request =
  req_method :: string
  req_path :: string
  req_payload :: jsval
  req_cookie :: "session_id option"
  req_uuid :: session_id

text \<open>\<open>request.yar\<close>: the session id, the in-memory payload, and whether the entry is to
  be deleted at the end of the request.\<close>

record yar =
  yar_id :: session_id
  yar_store :: "(string \<times> jsval) list"
  yar_deleting :: bool

text \<open>
  The Session Store is the yar plugin, whose code is not part of the repository; only
  its options and the calls to \<open>request.yar\<close> are. Its five operations follow
  section 4.1 of the spec.
\<close>

text \<open>
  Modelled from the spec: \<open>resolve\<close> reads the session id from the cookie or
  creates one, and loads the corresponding cache entry, an empty payload when the
  entry is missing or the session is new. It never fails.
\<close>

definition resolve :: "yar_options \<Rightarrow> cache \<Rightarrow> request \<Rightarrow> yar" where
  "resolve opts c rq =
     (case req_cookie rq of
        None \<Rightarrow> \<lparr> yar_id = req_uuid rq, yar_store = [], yar_deleting = False \<rparr>
      | Some sid \<Rightarrow>
          \<lparr> yar_id = sid,
            yar_store = (case cache_get c (opt_segment opts, sid) of
                           None \<Rightarrow> [] | Some e \<Rightarrow> item e),
            yar_deleting = False \<rparr>)"

text \<open>
  Modelled from the spec: \<open>get\<close> is a pure read of the in-memory payload; a key
  that is not there reads as \<open>undefined\<close>.
\<close>

definition yar_get :: "yar \<Rightarrow> string \<Rightarrow> jsval" where
  "yar_get y k = (case map_of (yar_store y) k of Some v \<Rightarrow> v | None \<Rightarrow> JUndefined)"

text \<open>
  Modelled from the spec: \<open>set\<close> writes to the in-memory payload and does not touch
  the cache.
\<close>

definition yar_set :: "yar \<Rightarrow> string \<Rightarrow> jsval \<Rightarrow> yar" where
  "yar_set y k v = y\<lparr> yar_store := AList.update k v (yar_store y) \<rparr>"

text \<open>
  Modelled from the spec: \<open>clear\<close> removes the payload entirely and schedules the
  deletion of the cache entry.
\<close>

definition yar_clear :: "yar \<Rightarrow> string \<Rightarrow> yar" where
  "yar_clear y k = y\<lparr> yar_store := [], yar_deleting := True \<rparr>"

text \<open>
  Modelled from the spec: \<open>flush\<close> writes the in-memory payload to the cache entry
  with the default time to live, or deletes the entry when its deletion is scheduled,
  and writes the cookie with the default client-side time to live. With a maximum
  inline cookie size of zero all data is server-side and the cookie carries the
  identifier alone; any other size lets the payload travel in the cookie.
\<close>

definition flush :: "yar_options \<Rightarrow> yar \<Rightarrow> cache \<Rightarrow> states \<Rightarrow> cache \<times> states \<times> event list" where
  "flush opts y c st =
     (let fid = (opt_segment opts, yar_id y);
          ident = (''id'', JStr (yar_id y))
      in if opt_maxCookieSize opts \<noteq> 0 then
           (c, h_state st (opt_name opts) (JObj [ident, (''_store'', JObj (yar_store y))])
                 (opt_cookie_ttl opts),
            [FlushCookie (opt_name opts) (opt_cookie_ttl opts)])
         else if yar_deleting y then
           (cache_drop c fid,
            h_state st (opt_name opts) (JObj [ident]) (opt_cookie_ttl opts),
            [FlushDrop fid, FlushCookie (opt_name opts) (opt_cookie_ttl opts)])
         else
           (cache_set c fid (yar_store y) (opt_expiresIn opts),
            h_state st (opt_name opts) (JObj [ident]) (opt_cookie_ttl opts),
            [FlushSet fid (opt_expiresIn opts), FlushCookie (opt_name opts) (opt_cookie_ttl opts)]))"

section \<open>The authentication scheme\<close>

text \<open>
  \<open>h.authenticated({credentials})\<close> of the toolkit (the hapi server, whose code is
  not part of the repository) asserts that credentials are given: with a missing or
  falsy \<open>credentials\<close> it throws an AssertionError instead of returning the
  authenticated outcome.
\<close>

definition h_authenticated :: "jsval \<Rightarrow> error + jsval" where
  "h_authenticated credentials =
     (if truthy credentials then Inr credentials else Inl AssertionError)"

text \<open>\<open>authenticate\<close> of \<open>my-scheme\<close> (lines 40 to 47): when \<open>data && data.auth\<close>
  it returns \<open>h.authenticated({credentials: data.username})\<close>, otherwise it throws
  \<open>Boom.unauthorized\<close>.\<close>

definition authenticate :: "yar \<Rightarrow> error + jsval" where
  "authenticate y =
     (let data = yar_get y ''data''
      in if truthy data \<and> truthy (get_prop data ''auth'')
         then h_authenticated (get_prop data ''username'')
         else Inl (Unauthorized ''Please GTFO.''))"

section \<open>The TTL hook\<close>

text \<open>The promise chain \<open>cache.get(fullId).then(...)\<close> the hook starts and does not
  wait for: it runs at some later point, on the cache as it is then.\<close>

datatype chain = GetThenSet full_id

text \<open>Route settings the hook and the pipeline read: \<open>app.yarring\<close> (absent reads as
  false), \<open>auth.mode\<close> where the route states one.\<close>

datatype auth_mode = Required | Try

record view_context =
  vc_page :: string
  vc_auth :: bool
  vc_yar :: "session_id \<times> jsval"
  vc_credentials :: jsval
  vc_username :: jsval

datatype body =
    View string view_context
  | Redirect string
  | Failure error

record req_ctx =
  ctx_payload :: jsval
  ctx_yar :: yar
  ctx_isAuthenticated :: bool
  ctx_credentials :: jsval

record route =
  rt_method :: string
  rt_path :: string
  rt_yarring :: bool
  rt_auth :: "auth_mode option"
  rt_handler :: "req_ctx \<Rightarrow> error + (yar \<times> body)"

text \<open>The \<open>onPreResponse\<close> extension (lines 96 to 113). It returns \<open>h.continue\<close> with
  the cookies as it leaves them and the promise chain it started; reading \<open>.remember\<close>
  of an absent payload throws.\<close>

definition onPreResponse :: "route \<Rightarrow> yar \<Rightarrow> states \<Rightarrow> error + (states \<times> chain list \<times> event list)" where
  "onPreResponse rt y st =
     (if \<not> rt_yarring rt then Inr (st, [], [])
      else case read_prop (yar_get y ''data'') ''remember'' of
             Inl e \<Rightarrow> Inl e
           | Inr r \<Rightarrow>
               if truthy r then
                 (let fullId = (segment, yar_id y)
                  in Inr (h_state st cookie (JObj [(''id'', JStr (yar_id y))]) (oneDay * 365),
                          [GetThenSet fullId],
                          [HookGet fullId, HookCookie cookie (oneDay * 365)]))
               else Inr (st, [], []))"

text \<open>The callback \<open>(cached) => { cache.set(fullId, cached.item, oneDay * 365) }\<close>:
  \<open>cached\<close> is \<open>null\<close> when the entry is gone, and \<open>cached.item\<close> throws then.\<close>

definition callback :: "full_id \<Rightarrow> cache_entry option \<Rightarrow> cache \<Rightarrow> error + (cache \<times> event list)" where
  "callback fullId cached c =
     (case cached of
        None \<Rightarrow> Inl TypeError
      | Some e \<Rightarrow> Inr (cache_set c fullId (item e) (oneDay * 365),
                       [CallbackSet fullId (oneDay * 365)]))"

fun run_chain :: "chain \<Rightarrow> cache \<Rightarrow> error + (cache \<times> event list)" where
  "run_chain (GetThenSet fullId) c = callback fullId (cache_get c fullId) c"

section \<open>Routes and handlers\<close>

text \<open>\<open>outputHelper\<close> (lines 8 to 15); the two \<open>JSON.stringify\<close> fields hold the value
  that is serialised.\<close>

definition outputHelper :: "req_ctx \<Rightarrow> string \<Rightarrow> view_context" where
  "outputHelper ctx name =
     \<lparr> vc_page = name,
       vc_auth = ctx_isAuthenticated ctx,
       vc_yar = (yar_id (ctx_yar ctx), yar_get (ctx_yar ctx) ''data''),
       vc_credentials = ctx_credentials ctx,
       vc_username = JUndefined \<rparr>"

definition handler_default :: "req_ctx \<Rightarrow> error + (yar \<times> body)" where
  "handler_default ctx = Inr (ctx_yar ctx, View ''default'' (outputHelper ctx ''default page''))"

definition handler_login_page :: "req_ctx \<Rightarrow> error + (yar \<times> body)" where
  "handler_login_page ctx = Inr (ctx_yar ctx, View ''login'' (outputHelper ctx ''login page''))"

text \<open>POST /login (lines 153 to 161). Destructuring \<open>request.payload\<close> throws when the
  request has no body; \<open>password\<close> is bound and never read.\<close>

definition handler_login :: "req_ctx \<Rightarrow> error + (yar \<times> body)" where
  "handler_login ctx =
     (let p = ctx_payload ctx
      in if nullish p then Inl TypeError
         else (let username = get_prop p ''username'';
                   password = get_prop p ''password'';
                   remember = get_prop p ''remember''
               in Inr (yar_set (ctx_yar ctx) ''data''
                         (JObj [(''username'', username),
                                (''remember'', JBool (truthy remember)),
                                (''auth'', JBool True)]),
                       Redirect ''/'')))"

definition handler_logout :: "req_ctx \<Rightarrow> error + (yar \<times> body)" where
  "handler_logout ctx = Inr (yar_clear (ctx_yar ctx) ''data'', Redirect ''/'')"

definition handler_secured :: "req_ctx \<Rightarrow> error + (yar \<times> body)" where
  "handler_secured ctx =
     Inr (ctx_yar ctx, View ''secured'' (outputHelper ctx ''authenticated page''))"

definition handler_user_page :: "req_ctx \<Rightarrow> error + (yar \<times> body)" where
  "handler_user_page ctx =
     (let context = outputHelper ctx ''account page''
      in case read_prop (yar_get (ctx_yar ctx) ''data'') ''username'' of
           Inl e \<Rightarrow> Inl e
         | Inr u \<Rightarrow> Inr (ctx_yar ctx, View ''user'' (context\<lparr> vc_username := u \<rparr>)))"

text \<open>POST /user (lines 205 to 214): the payload object is read, its \<open>username\<close>
  overwritten, and the object stored again.\<close>

definition handler_user :: "req_ctx \<Rightarrow> error + (yar \<times> body)" where
  "handler_user ctx =
     (let data = yar_get (ctx_yar ctx) ''data''
      in case read_prop (ctx_payload ctx) ''username'' of
           Inl e \<Rightarrow> Inl e
         | Inr u \<Rightarrow>
             (case assign data ''username'' u of
                Inl e \<Rightarrow> Inl e
              | Inr data' \<Rightarrow> Inr (yar_set (ctx_yar ctx) ''data'' data', Redirect ''/'')))"

definition route_root :: route where
  "route_root = \<lparr> rt_method = ''GET'', rt_path = ''/'', rt_yarring = False,
                  rt_auth = Some Try, rt_handler = handler_default \<rparr>"

definition route_login_page :: route where
  "route_login_page = \<lparr> rt_method = ''GET'', rt_path = ''/login'', rt_yarring = False,
                        rt_auth = Some Try, rt_handler = handler_login_page \<rparr>"

definition route_login :: route where
  "route_login = \<lparr> rt_method = ''POST'', rt_path = ''/login'', rt_yarring = True,
                   rt_auth = Some Try, rt_handler = handler_login \<rparr>"

definition route_logout :: route where
  "route_logout = \<lparr> rt_method = ''GET'', rt_path = ''/logout'', rt_yarring = False,
                    rt_auth = None, rt_handler = handler_logout \<rparr>"

definition route_secured :: route where
  "route_secured = \<lparr> rt_method = ''GET'', rt_path = ''/secured'', rt_yarring = False,
                     rt_auth = None, rt_handler = handler_secured \<rparr>"

definition route_user_page :: route where
  "route_user_page = \<lparr> rt_method = ''GET'', rt_path = ''/user'', rt_yarring = False,
                       rt_auth = None, rt_handler = handler_user_page \<rparr>"

definition route_user :: route where
  "route_user = \<lparr> rt_method = ''POST'', rt_path = ''/user'', rt_yarring = True,
                  rt_auth = None, rt_handler = handler_user \<rparr>"

text \<open>The table given to \<open>server.route\<close> (lines 117 to 217), in its order.\<close>

definition routes :: "route list" where
  "routes = [route_root, route_login_page, route_login, route_logout, route_secured,
             route_user_page, route_user]"

text \<open>\<open>server.auth.default('my-strategy')\<close> (line 53): a route that states no mode
  gets the strategy in mode required.\<close>

definition auth_default :: auth_mode where
  "auth_default = Required"

definition mode_of :: "route \<Rightarrow> auth_mode" where
  "mode_of rt = (case rt_auth rt of None \<Rightarrow> auth_default | Some m \<Rightarrow> m)"

definition lookup_route :: "string \<Rightarrow> string \<Rightarrow> route option" where
  "lookup_route m p = find (\<lambda>rt. rt_method rt = m \<and> rt_path rt = p) routes"

section \<open>The request pipeline\<close>

text \<open>
  The request pipeline is the hapi server, whose code is not part of the repository.
  Its stages are those of the spec's data flow: the store resolves the session, the
  authenticator evaluates, the handler executes, the store flushes, the TTL hook runs.
\<close>

record outcome =
  out_cache :: cache
  out_body :: body
  out_states :: states
  out_yar :: yar
  out_pending :: "chain list"
  out_events :: "event list"

text \<open>
  Modelled from the spec: the handler executes with the request's body, session and
  authentication outcome; a handler that throws leaves the session as it was and its
  failure becomes the response.
\<close>

definition invoke :: "route \<Rightarrow> request \<Rightarrow> yar \<Rightarrow> bool \<Rightarrow> jsval \<Rightarrow> yar \<times> body \<times> event list" where
  "invoke rt rq y isAuth creds =
     (case rt_handler rt \<lparr> ctx_payload = req_payload rq, ctx_yar = y,
                           ctx_isAuthenticated = isAuth, ctx_credentials = creds \<rparr> of
        Inl e \<Rightarrow> (y, Failure e, [HandlerCalled isAuth])
      | Inr (y', b) \<Rightarrow> (y', b, [HandlerCalled isAuth]))"

text \<open>
  Modelled from the spec: the authentication mode of the route. In mode required an
  unauthenticated request is rejected with the authenticator's failure and the handler
  does not run; in mode try the handler runs regardless and the request exposes the
  outcome. Whatever the authenticator throws counts as its failure.
\<close>

definition auth_step :: "route \<Rightarrow> request \<Rightarrow> yar \<Rightarrow> yar \<times> body \<times> event list" where
  "auth_step rt rq y =
     (case authenticate y of
        Inr creds \<Rightarrow> invoke rt rq y True creds
      | Inl e \<Rightarrow>
          if mode_of rt = Required then (y, Failure e, [AuthRejected e])
          else invoke rt rq y False JNull)"

text \<open>
  Modelled from the spec: one request through the stages. The flush and the hook are
  response extensions, they run for every response, a rejection included, and a
  failure of the hook replaces the response. The hook is registered with
  \<open>after: ['yar']\<close> (lines 93 to 95), so it runs when the flush has completed.
\<close>

definition lifecycle :: "route \<Rightarrow> cache \<Rightarrow> request \<Rightarrow> outcome" where
  "lifecycle rt c rq =
     (case auth_step rt rq (resolve options c rq) of
        (y1, b, ev1) \<Rightarrow>
          (case flush options y1 c Map.empty of
             (c1, st1, ev2) \<Rightarrow>
               (case onPreResponse rt y1 st1 of
                  Inl e \<Rightarrow>
                    \<lparr> out_cache = c1, out_body = Failure e, out_states = st1, out_yar = y1,
                      out_pending = [], out_events = ev1 @ ev2 \<rparr>
                | Inr (st2, ts, ev3) \<Rightarrow>
                    \<lparr> out_cache = c1, out_body = b, out_states = st2, out_yar = y1,
                      out_pending = ts, out_events = ev1 @ ev2 @ ev3 \<rparr>)))"

text \<open>
  The server over time (section 5 of the spec): its cache, the promise chains that
  hooks have left behind, the rejections nobody handled, and the trace of all events.
\<close>

record server =
  srv_cache :: cache
  srv_pending :: "chain list"
  srv_unhandled :: "error list"
  srv_trace :: "event list"

datatype action =
    Req request
  | Tick nat
  | Evict full_id

text \<open>
  Modelled from the spec: a request is served; or a promise chain a hook left behind
  runs, at any later step, its read and its write together; or a cache entry expires
  or is evicted. A callback that throws is an unhandled rejection and writes nothing.
  A request that matches no route of the table reaches none of the code above and
  leaves the server as it is.
\<close>

fun step :: "server \<Rightarrow> action \<Rightarrow> server \<times> outcome option" where
  "step s (Req rq) =
     (case lookup_route (req_method rq) (req_path rq) of
        None \<Rightarrow> (s, None)
      | Some rt \<Rightarrow>
          (let out = lifecycle rt (srv_cache s) rq
           in (s\<lparr> srv_cache := out_cache out,
                   srv_pending := srv_pending s @ out_pending out,
                   srv_trace := srv_trace s @ out_events out \<rparr>, Some out)))"
| "step s (Tick i) =
     (if i < length (srv_pending s) then
        (let rest = take i (srv_pending s) @ drop (Suc i) (srv_pending s)
         in case run_chain (srv_pending s ! i) (srv_cache s) of
              Inl e \<Rightarrow> (s\<lparr> srv_pending := rest, srv_unhandled := srv_unhandled s @ [e] \<rparr>, None)
            | Inr (c', ev) \<Rightarrow>
                (s\<lparr> srv_cache := c', srv_pending := rest, srv_trace := srv_trace s @ ev \<rparr>, None))
      else (s, None))"
| "step s (Evict fid) = (s\<lparr> srv_cache := cache_drop (srv_cache s) fid \<rparr>, None)"

text \<open>Modelled from the spec: any sequence of such steps, with the responses it
  produces.\<close>

fun run :: "server \<Rightarrow> action list \<Rightarrow> server \<times> outcome list" where
  "run s [] = (s, [])"
| "run s (a # as) =
     (case step s a of
        (s', r) \<Rightarrow>
          (case run s' as of
             (s'', rs) \<Rightarrow> (s'', (case r of None \<Rightarrow> [] | Some out \<Rightarrow> [out]) @ rs)))"

definition start :: server where
  "start = \<lparr> srv_cache = Map.empty, srv_pending = [], srv_unhandled = [], srv_trace = [] \<rparr>"

section \<open>Observations and sample inputs\<close>

text \<open>The time to live of the session cookie in a response, and of the cache entry of
  a session.\<close>

definition cookie_ttl :: "outcome \<Rightarrow> nat option" where
  "cookie_ttl out = map_option cttl (out_states out cookie)"

definition cache_ttl :: "cache \<Rightarrow> session_id \<Rightarrow> nat option" where
  "cache_ttl c sid = map_option ttl (cache_get c (segment, sid))"

text \<open>The payload of the data model: its \<open>auth\<close> flag is a boolean where it is
  present.\<close>

definition flag_boolean :: "jsval \<Rightarrow> bool" where
  "flag_boolean data =
     (case get_prop data ''auth'' of JUndefined \<Rightarrow> True | JBool b \<Rightarrow> True | _ \<Rightarrow> False)"

definition alice :: "(string \<times> jsval) list" where
  "alice = [(''data'', JObj [(''username'', JStr ''alice''), (''remember'', JBool False),
                             (''auth'', JBool True)])]"

definition login_alice :: request where
  "login_alice =
     \<lparr> req_method = ''POST'', req_path = ''/login'',
       req_payload = JObj [(''username'', JStr ''alice''), (''password'', JStr ''x''),
                           (''remember'', JBool True)],
       req_cookie = None, req_uuid = ''s1'' \<rparr>"

definition alice_cache :: cache where
  "alice_cache = cache_set Map.empty (segment, ''s1'') alice oneDay"

definition logout_alice :: request where
  "logout_alice =
     \<lparr> req_method = ''GET'', req_path = ''/logout'', req_payload = JNull,
       req_cookie = Some ''s1'', req_uuid = ''s2'' \<rparr>"

definition secured_alice :: request where
  "secured_alice =
     \<lparr> req_method = ''GET'', req_path = ''/secured'', req_payload = JNull,
       req_cookie = Some ''s1'', req_uuid = ''s3'' \<rparr>"

definition login_bob :: request where
  "login_bob =
     \<lparr> req_method = ''POST'', req_path = ''/login'',
       req_payload = JObj [(''username'', JStr ''bob''), (''password'', JStr ''wrong'')],
       req_cookie = None, req_uuid = ''s6'' \<rparr>"

definition rename_bob :: request where
  "rename_bob =
     \<lparr> req_method = ''POST'', req_path = ''/user'',
       req_payload = JObj [(''username'', JStr ''bob'')],
       req_cookie = Some ''s1'', req_uuid = ''s7'' \<rparr>"

definition alice_remembered :: cache where
  "alice_remembered =
     cache_set Map.empty (segment, ''s1'')
       [(''data'', JObj [(''username'', JStr ''alice''), (''remember'', JBool True),
                         (''auth'', JBool True)])] oneDay"

definition user_anon :: request where
  "user_anon =
     \<lparr> req_method = ''POST'', req_path = ''/user'',
       req_payload = JObj [(''username'', JStr ''bob'')],
       req_cookie = None, req_uuid = ''s8'' \<rparr>"

definition login_nameless :: request where
  "login_nameless =
     \<lparr> req_method = ''POST'', req_path = ''/login'',
       req_payload = JObj [(''username'', JStr []), (''password'', JStr ''x'')],
       req_cookie = None, req_uuid = ''s9'' \<rparr>"

definition nameless :: yar where
  "nameless =
     \<lparr> yar_id = ''s9'',
       yar_store = [(''data'', JObj [(''username'', JStr []), (''remember'', JBool False),
                                     (''auth'', JBool True)])],
       yar_deleting = False \<rparr>"

text \<open>Events of the store's flush, and events of the TTL reconciliation (the hook and
  its callback).\<close>

fun flush_event :: "event \<Rightarrow> bool" where
  "flush_event (FlushSet fid t) = True"
| "flush_event (FlushDrop fid) = True"
| "flush_event (FlushCookie n t) = True"
| "flush_event e = False"

fun reconcile_event :: "event \<Rightarrow> bool" where
  "reconcile_event (HookGet fid) = True"
| "reconcile_event (HookCookie n t) = True"
| "reconcile_event (CallbackSet fid t) = True"
| "reconcile_event e = False"

section \<open>Auxiliary facts\<close>

lemmas route_defs = route_root_def route_login_page_def route_login_def route_logout_def
  route_secured_def route_user_page_def route_user_def

lemma ext_ttl: "oneDay * 365 = 31536000000"
  by (simp add: oneDay_def)

lemma flush_options:
  "flush options y c st =
     (if yar_deleting y
      then (cache_drop c (segment, yar_id y),
            h_state st cookie (JObj [(''id'', JStr (yar_id y))]) oneDay,
            [FlushDrop (segment, yar_id y), FlushCookie cookie oneDay])
      else (cache_set c (segment, yar_id y) (yar_store y) oneDay,
            h_state st cookie (JObj [(''id'', JStr (yar_id y))]) oneDay,
            [FlushSet (segment, yar_id y) oneDay, FlushCookie cookie oneDay]))"
  by (simp add: flush_def options_def Let_def)

lemma lookup_route_cases:
  assumes "lookup_route m p = Some rt"
  shows "rt = route_root \<or> rt = route_login_page \<or> rt = route_login \<or> rt = route_logout
         \<or> rt = route_secured \<or> rt = route_user_page \<or> rt = route_user"
proof -
  from assms have "rt \<in> set routes"
    unfolding lookup_route_def by (auto simp: find_Some_iff)
  then show ?thesis by (simp add: routes_def)
qed

lemma yarring_routes:
  "rt_yarring route_root = False" "rt_yarring route_login_page = False"
  "rt_yarring route_login = True" "rt_yarring route_logout = False"
  "rt_yarring route_secured = False" "rt_yarring route_user_page = False"
  "rt_yarring route_user = True"
  by (simp_all add: route_defs)

lemma lookup_yarring:
  assumes "lookup_route m p = Some rt" and "rt_yarring rt"
  shows "rt = route_login \<or> rt = route_user"
  using lookup_route_cases[OF assms(1)] assms(2) yarring_routes by blast

lemma lookup_login: "lookup_route ''POST'' ''/login'' = Some route_login"
  by (simp add: lookup_route_def routes_def route_defs)

lemma lookup_user: "lookup_route ''POST'' ''/user'' = Some route_user"
  by (simp add: lookup_route_def routes_def route_defs)

lemma lookup_logout: "lookup_route ''GET'' ''/logout'' = Some route_logout"
  by (simp add: lookup_route_def routes_def route_defs)

lemma resolve_deleting: "yar_deleting (resolve opts c rq) = False"
  by (simp add: resolve_def split: option.splits)

lemma invoke_user_keeps:
  "yar_deleting (fst (invoke route_user rq y a cr)) = yar_deleting y
   \<and> yar_id (fst (invoke route_user rq y a cr)) = yar_id y"
  by (simp add: invoke_def route_user_def handler_user_def Let_def yar_set_def
      split: sum.splits)

lemma invoke_login_keeps:
  "yar_deleting (fst (invoke route_login rq y a cr)) = yar_deleting y
   \<and> yar_id (fst (invoke route_login rq y a cr)) = yar_id y"
  by (simp add: invoke_def route_login_def handler_login_def Let_def yar_set_def)

lemma auth_step_keeps:
  assumes "rt = route_login \<or> rt = route_user"
  shows "yar_deleting (fst (auth_step rt rq y)) = yar_deleting y
         \<and> yar_id (fst (auth_step rt rq y)) = yar_id y"
  using assms invoke_login_keeps invoke_user_keeps
  by (auto simp: auth_step_def split: sum.splits)

lemma lifecycle_unfold:
  "lifecycle rt c rq =
     (case onPreResponse rt (fst (auth_step rt rq (resolve options c rq)))
             (fst (snd (flush options (fst (auth_step rt rq (resolve options c rq))) c Map.empty))) of
        Inl e \<Rightarrow>
          \<lparr> out_cache = fst (flush options (fst (auth_step rt rq (resolve options c rq))) c Map.empty),
            out_body = Failure e,
            out_states = fst (snd (flush options (fst (auth_step rt rq (resolve options c rq))) c Map.empty)),
            out_yar = fst (auth_step rt rq (resolve options c rq)),
            out_pending = [],
            out_events = snd (snd (auth_step rt rq (resolve options c rq)))
              @ snd (snd (flush options (fst (auth_step rt rq (resolve options c rq))) c Map.empty)) \<rparr>
      | Inr h \<Rightarrow>
          \<lparr> out_cache = fst (flush options (fst (auth_step rt rq (resolve options c rq))) c Map.empty),
            out_body = fst (snd (auth_step rt rq (resolve options c rq))),
            out_states = fst h,
            out_yar = fst (auth_step rt rq (resolve options c rq)),
            out_pending = fst (snd h),
            out_events = snd (snd (auth_step rt rq (resolve options c rq)))
              @ snd (snd (flush options (fst (auth_step rt rq (resolve options c rq))) c Map.empty))
              @ snd (snd h) \<rparr>)"
  unfolding lifecycle_def
  by (cases "auth_step rt rq (resolve options c rq)";
      cases "flush options (fst (auth_step rt rq (resolve options c rq))) c Map.empty")
     (simp split: sum.splits prod.splits)

lemma out_yar_lifecycle: "out_yar (lifecycle rt c rq) = fst (auth_step rt rq (resolve options c rq))"
  by (simp add: lifecycle_unfold split: sum.splits)

lemma out_cache_lifecycle:
  "out_cache (lifecycle rt c rq) =
     fst (flush options (out_yar (lifecycle rt c rq)) c Map.empty)"
  by (simp add: lifecycle_unfold split: sum.splits)

lemma hook_remember:
  assumes "rt_yarring rt" and "read_prop (yar_get y ''data'') ''remember'' = Inr r" and "truthy r"
  shows "onPreResponse rt y st =
           Inr (h_state st cookie (JObj [(''id'', JStr (yar_id y))]) (oneDay * 365),
                [GetThenSet (segment, yar_id y)],
                [HookGet (segment, yar_id y), HookCookie cookie (oneDay * 365)])"
  using assms by (simp add: onPreResponse_def Let_def)

lemma hook_forget:
  assumes "read_prop (yar_get y ''data'') ''remember'' = Inr r" and "\<not> truthy r"
  shows "onPreResponse rt y st = Inr (st, [], [])"
  using assms by (simp add: onPreResponse_def Let_def)

lemma lifecycle_hook_ok:
  assumes "onPreResponse rt (out_yar (lifecycle rt c rq))
             (fst (snd (flush options (out_yar (lifecycle rt c rq)) c Map.empty))) = Inr (st2, ts, ev3)"
  shows "out_states (lifecycle rt c rq) = st2 \<and> out_pending (lifecycle rt c rq) = ts
         \<and> out_body (lifecycle rt c rq) = fst (snd (auth_step rt rq (resolve options c rq)))
         \<and> out_events (lifecycle rt c rq) =
             snd (snd (auth_step rt rq (resolve options c rq)))
             @ snd (snd (flush options (out_yar (lifecycle rt c rq)) c Map.empty)) @ ev3"
  using assms unfolding out_yar_lifecycle
  by (simp add: lifecycle_unfold)

lemma yarring_flushed:
  assumes "lookup_route m p = Some rt" and "rt_yarring rt"
  shows "out_cache (lifecycle rt c rq) =
           cache_set c (segment, yar_id (out_yar (lifecycle rt c rq)))
             (yar_store (out_yar (lifecycle rt c rq))) oneDay"
proof -
  have "rt = route_login \<or> rt = route_user"
    using assms by (rule lookup_yarring)
  then have "\<not> yar_deleting (out_yar (lifecycle rt c rq))"
    using auth_step_keeps[of rt rq "resolve options c rq"]
    by (simp add: out_yar_lifecycle resolve_deleting)
  then show ?thesis
    by (simp add: out_cache_lifecycle flush_options)
qed

lemma remember_outcome:
  assumes "lookup_route m p = Some rt"
    and "rt_yarring rt"
    and "read_prop (yar_get (out_yar (lifecycle rt c rq)) ''data'') ''remember'' = Inr r"
    and "truthy r"
  shows "out_states (lifecycle rt c rq) =
           h_state (h_state Map.empty cookie
                      (JObj [(''id'', JStr (yar_id (out_yar (lifecycle rt c rq))))]) oneDay)
             cookie (JObj [(''id'', JStr (yar_id (out_yar (lifecycle rt c rq))))]) (oneDay * 365)"
    and "out_pending (lifecycle rt c rq) = [GetThenSet (segment, yar_id (out_yar (lifecycle rt c rq)))]"
    and "out_cache (lifecycle rt c rq) =
           cache_set c (segment, yar_id (out_yar (lifecycle rt c rq)))
             (yar_store (out_yar (lifecycle rt c rq))) oneDay"
    and "out_body (lifecycle rt c rq) = fst (snd (auth_step rt rq (resolve options c rq)))"
    and "out_events (lifecycle rt c rq) =
           snd (snd (auth_step rt rq (resolve options c rq)))
           @ [FlushSet (segment, yar_id (out_yar (lifecycle rt c rq))) oneDay,
              FlushCookie cookie oneDay,
              HookGet (segment, yar_id (out_yar (lifecycle rt c rq))),
              HookCookie cookie (oneDay * 365)]"
proof -
  let ?out = "lifecycle rt c rq"
  let ?fid = "(segment, yar_id (out_yar ?out))"
  let ?st1 = "fst (snd (flush options (out_yar ?out) c Map.empty))"
  have nd: "\<not> yar_deleting (out_yar ?out)"
    using auth_step_keeps[OF lookup_yarring[OF assms(1,2)], of rq "resolve options c rq"]
    by (simp add: out_yar_lifecycle resolve_deleting)
  have hook: "onPreResponse rt (out_yar ?out) ?st1
              = Inr (h_state ?st1 cookie (JObj [(''id'', JStr (yar_id (out_yar ?out)))]) (oneDay * 365),
                     [GetThenSet ?fid], [HookGet ?fid, HookCookie cookie (oneDay * 365)])"
    using assms(2-4) by (rule hook_remember)
  note ok = lifecycle_hook_ok[OF hook]
  show "out_states ?out =
           h_state (h_state Map.empty cookie (JObj [(''id'', JStr (yar_id (out_yar ?out)))]) oneDay)
             cookie (JObj [(''id'', JStr (yar_id (out_yar ?out)))]) (oneDay * 365)"
    using ok nd by (simp add: flush_options)
  show "out_pending ?out = [GetThenSet ?fid]"
    using ok by simp
  show "out_cache ?out = cache_set c ?fid (yar_store (out_yar ?out)) oneDay"
    using assms(1,2) by (rule yarring_flushed)
  show "out_body ?out = fst (snd (auth_step rt rq (resolve options c rq)))"
    using ok by simp
  show "out_events ?out = snd (snd (auth_step rt rq (resolve options c rq)))
           @ [FlushSet ?fid oneDay, FlushCookie cookie oneDay, HookGet ?fid,
              HookCookie cookie (oneDay * 365)]"
    using ok nd by (simp add: flush_options)
qed

lemma alice_outcome:
  "lifecycle route_login Map.empty login_alice
      = \<lparr> out_cache = cache_set Map.empty (segment, ''s1'')
                         [(''data'', JObj [(''username'', JStr ''alice''),
                                           (''remember'', JBool True), (''auth'', JBool True)])]
                         oneDay,
          out_body = Redirect ''/'',
          out_states = h_state (h_state Map.empty cookie (JObj [(''id'', JStr ''s1'')]) oneDay)
                         cookie (JObj [(''id'', JStr ''s1'')]) (oneDay * 365),
          out_yar = \<lparr> yar_id = ''s1'',
                      yar_store = [(''data'', JObj [(''username'', JStr ''alice''),
                                     (''remember'', JBool True), (''auth'', JBool True)])],
                      yar_deleting = False \<rparr>,
          out_pending = [GetThenSet (segment, ''s1'')],
          out_events = [HandlerCalled False, FlushSet (segment, ''s1'') oneDay,
                        FlushCookie cookie oneDay, HookGet (segment, ''s1''),
                        HookCookie cookie (oneDay * 365)] \<rparr>"
  by (simp add: lifecycle_def auth_step_def authenticate_def resolve_def login_alice_def
      yar_get_def invoke_def route_login_def mode_of_def handler_login_def yar_set_def
      flush_options onPreResponse_def read_prop_def Let_def)

lemma alice_session:
  "out_yar (lifecycle route_login Map.empty login_alice) =
     \<lparr> yar_id = ''s1'',
       yar_store = [(''data'', JObj [(''username'', JStr ''alice''),
                                     (''remember'', JBool True), (''auth'', JBool True)])],
       yar_deleting = False \<rparr>"
  by (simp add: alice_outcome)

lemma alice_remember:
  "read_prop (yar_get (out_yar (lifecycle route_login Map.empty login_alice)) ''data'') ''remember''
     = Inr (JBool True)"
  by (simp add: alice_session yar_get_def read_prop_def)

lemma alice_lookup:
  "lookup_route (req_method login_alice) (req_path login_alice) = Some route_login"
  by (simp add: login_alice_def lookup_login)

lemma hook_shape:
  assumes "onPreResponse rt y st = Inr (st2, ts, ev)"
  shows "(st2 = st \<and> ts = [] \<and> ev = [])
       \<or> (rt_yarring rt
          \<and> st2 = h_state st cookie (JObj [(''id'', JStr (yar_id y))]) (oneDay * 365)
          \<and> ts = [GetThenSet (segment, yar_id y)]
          \<and> ev = [HookGet (segment, yar_id y), HookCookie cookie (oneDay * 365)])"
  using assms
  by (auto simp: onPreResponse_def Let_def split: if_splits sum.splits)

lemma lifecycle_events:
  "(out_events (lifecycle rt c rq) =
      snd (snd (auth_step rt rq (resolve options c rq)))
      @ snd (snd (flush options (out_yar (lifecycle rt c rq)) c Map.empty))
    \<and> out_pending (lifecycle rt c rq) = [])
   \<or> (rt_yarring rt
      \<and> out_events (lifecycle rt c rq) =
          snd (snd (auth_step rt rq (resolve options c rq)))
          @ snd (snd (flush options (out_yar (lifecycle rt c rq)) c Map.empty))
          @ [HookGet (segment, yar_id (out_yar (lifecycle rt c rq))),
             HookCookie cookie (oneDay * 365)]
      \<and> out_pending (lifecycle rt c rq) = [GetThenSet (segment, yar_id (out_yar (lifecycle rt c rq)))])"
proof (cases "onPreResponse rt (out_yar (lifecycle rt c rq))
                (fst (snd (flush options (out_yar (lifecycle rt c rq)) c Map.empty)))")
  case (Inl e)
  then have "onPreResponse rt (fst (auth_step rt rq (resolve options c rq)))
               (fst (snd (flush options (fst (auth_step rt rq (resolve options c rq))) c Map.empty)))
             = Inl e"
    by (simp add: out_yar_lifecycle)
  then show ?thesis
    by (simp add: lifecycle_unfold)
next
  case (Inr h)
  obtain st2 ts ev where h: "h = (st2, ts, ev)"
    by (cases h) auto
  from hook_shape[OF Inr[unfolded h]] lifecycle_hook_ok[OF Inr[unfolded h]]
  show ?thesis by auto
qed

lemma truthy_prop_object: "truthy (get_prop v k) \<Longrightarrow> \<exists>fs. v = JObj fs"
  by (cases v) simp_all

lemma authenticate_object:
  assumes "authenticate y = Inr u"
  shows "\<exists>fs. yar_get y ''data'' = JObj fs"
  using assms truthy_prop_object[of "yar_get y ''data''" "''auth''"]
  by (auto simp: authenticate_def Let_def split: if_splits)

lemma auth_step_events:
  "(\<exists>e. snd (snd (auth_step rt rq y)) = [AuthRejected e]) \<or> (\<exists>b. snd (snd (auth_step rt rq y)) = [HandlerCalled b])"
  by (auto simp: auth_step_def invoke_def split: sum.splits prod.splits)

lemma fst_run_two: "fst (run s [a, b]) = fst (step (fst (step s a)) b)"
  by (simp split: prod.splits)

lemma lifecycle_states:
  assumes "out_states (lifecycle rt c rq) n = Some ck"
  shows "n = cookie \<and> cvalue ck = JObj [(''id'', JStr (yar_id (out_yar (lifecycle rt c rq))))]"
proof (cases "onPreResponse rt (out_yar (lifecycle rt c rq))
                (fst (snd (flush options (out_yar (lifecycle rt c rq)) c Map.empty)))")
  case (Inl e)
  then have "onPreResponse rt (fst (auth_step rt rq (resolve options c rq)))
               (fst (snd (flush options (fst (auth_step rt rq (resolve options c rq))) c Map.empty)))
             = Inl e"
    by (simp add: out_yar_lifecycle)
  then have "out_states (lifecycle rt c rq) =
               fst (snd (flush options (out_yar (lifecycle rt c rq)) c Map.empty))"
    by (simp add: lifecycle_unfold)
  with assms show ?thesis
    by (auto simp: flush_options h_state_def split: if_splits)
next
  case (Inr h)
  obtain st2 ts ev where h: "h = (st2, ts, ev)"
    by (cases h) auto
  from hook_shape[OF Inr[unfolded h]] lifecycle_hook_ok[OF Inr[unfolded h]] assms
  show ?thesis
    by (auto simp: flush_options h_state_def split: if_splits)
qed

lemma step_outcome:
  assumes "step s a = (s', Some out)"
  shows "\<exists>rt c rq. out = lifecycle rt c rq"
  using assms
  by (cases a) (auto simp: Let_def split: option.splits if_splits sum.splits prod.splits)

lemma run_outcomes:
  "out \<in> set (snd (run s as)) \<Longrightarrow> \<exists>rt c rq. out = lifecycle rt c rq"
proof (induction as arbitrary: s)
  case Nil
  then show ?case by simp
next
  case (Cons a as)
  obtain s' r where st: "step s a = (s', r)"
    by (cases "step s a") auto
  obtain s'' rs where rn: "run s' as = (s'', rs)"
    by (cases "run s' as") auto
  from Cons.prems have "out \<in> set (case r of None \<Rightarrow> [] | Some x \<Rightarrow> [x]) \<or> out \<in> set rs"
    by (simp add: st rn del: step.simps)
  then show ?case
  proof
    assume "out \<in> set (case r of None \<Rightarrow> [] | Some x \<Rightarrow> [x])"
    then have "r = Some out"
      by (cases r) auto
    with st show ?thesis
      using step_outcome by blast
  next
    assume "out \<in> set rs"
    then have "out \<in> set (snd (run s' as))"
      by (simp add: rn)
    then show ?thesis
      by (rule Cons.IH)
  qed
qed

lemma tick_own_chain:
  assumes "lookup_route (req_method rq) (req_path rq) = Some rt"
  shows "fst (run s [Req rq, Tick (length (srv_pending s))]) =
           fst (step (s\<lparr> srv_cache := out_cache (lifecycle rt (srv_cache s) rq),
                           srv_pending := srv_pending s @ out_pending (lifecycle rt (srv_cache s) rq),
                           srv_trace := srv_trace s @ out_events (lifecycle rt (srv_cache s) rq) \<rparr>)
                     (Tick (length (srv_pending s))))"
proof -
  have "fst (step s (Req rq)) =
          s\<lparr> srv_cache := out_cache (lifecycle rt (srv_cache s) rq),
              srv_pending := srv_pending s @ out_pending (lifecycle rt (srv_cache s) rq),
              srv_trace := srv_trace s @ out_events (lifecycle rt (srv_cache s) rq) \<rparr>"
    by (simp add: assms Let_def)
  then show ?thesis
    by (simp only: fst_run_two)
qed

lemma chain_rewrites:
  assumes "i < length (srv_pending s')" and "srv_pending s' ! i = GetThenSet fid"
    and "cache_get (srv_cache s') fid = Some e"
  shows "srv_cache (fst (step s' (Tick i))) = cache_set (srv_cache s') fid (item e) (oneDay * 365)"
  using assms by (simp add: Let_def callback_def)

lemma remember_then_tick:
  assumes "lookup_route (req_method rq) (req_path rq) = Some rt"
    and "rt_yarring rt"
    and "read_prop (yar_get (out_yar (lifecycle rt (srv_cache s) rq)) ''data'') ''remember'' = Inr r"
    and "truthy r"
  shows "srv_cache (fst (run s [Req rq, Tick (length (srv_pending s))])) =
           cache_set (out_cache (lifecycle rt (srv_cache s) rq))
             (segment, yar_id (out_yar (lifecycle rt (srv_cache s) rq)))
             (yar_store (out_yar (lifecycle rt (srv_cache s) rq))) (oneDay * 365)"
proof -
  let ?out = "lifecycle rt (srv_cache s) rq"
  let ?fid = "(segment, yar_id (out_yar ?out))"
  let ?s1 = "s\<lparr> srv_cache := out_cache ?out,
                 srv_pending := srv_pending s @ out_pending ?out,
                 srv_trace := srv_trace s @ out_events ?out \<rparr>"
  note out = remember_outcome[OF assms]
  have i: "length (srv_pending s) < length (srv_pending ?s1)"
    and c: "srv_pending ?s1 ! length (srv_pending s) = GetThenSet ?fid"
    by (simp_all add: out(2))
  have e: "cache_get (srv_cache ?s1) ?fid
             = Some \<lparr> item = yar_store (out_yar ?out), ttl = oneDay \<rparr>"
    by (simp add: out(3) cache_get_def cache_set_def)
  have "srv_cache (fst (step ?s1 (Tick (length (srv_pending s)))))
          = cache_set (srv_cache ?s1) ?fid
              (item \<lparr> item = yar_store (out_yar ?out), ttl = oneDay \<rparr>) (oneDay * 365)"
    using i c e by (rule chain_rewrites)
  then show ?thesis
    unfolding tick_own_chain[OF assms(1)] by simp
qed

lemma forget_then_tick:
  assumes "lookup_route (req_method rq) (req_path rq) = Some rt"
    and "out_pending (lifecycle rt (srv_cache s) rq) = []"
  shows "srv_cache (fst (run s [Req rq, Tick (length (srv_pending s))])) =
           out_cache (lifecycle rt (srv_cache s) rq)"
  unfolding tick_own_chain[OF assms(1)] using assms(2) by simp

section \<open>Properties\<close>

text \<open>
  C1 (as amended). For every request to a route flagged \<open>yarring\<close> (POST /login,
  POST /user) whose flushed payload has a true \<open>remember\<close>: the response sets the
  cookie with the extended time to live, 31,536,000,000 ms; the hook returns with its
  promise chain started and not awaited; whenever that chain runs, at whatever later
  point, and its read finds the entry, the entry is stored again with the extended
  time to live; and when the chain runs on the cache as the request left it, the
  entry holds the flushed payload with the extended time to live.
\<close>

theorem remember_extends_ttl:
  assumes "lookup_route (req_method rq) (req_path rq) = Some rt"
    and "rt_yarring rt"
    and "read_prop (yar_get (out_yar (lifecycle rt (srv_cache s) rq)) ''data'') ''remember'' = Inr r"
    and "truthy r"
  shows "cookie_ttl (lifecycle rt (srv_cache s) rq) = Some 31536000000
       \<and> out_pending (lifecycle rt (srv_cache s) rq)
           = [GetThenSet (segment, yar_id (out_yar (lifecycle rt (srv_cache s) rq)))]
       \<and> (\<forall>s' i e.
             i < length (srv_pending s')
             \<and> srv_pending s' ! i = GetThenSet (segment, yar_id (out_yar (lifecycle rt (srv_cache s) rq)))
             \<and> cache_get (srv_cache s') (segment, yar_id (out_yar (lifecycle rt (srv_cache s) rq)))
                 = Some e
             \<longrightarrow> cache_get (srv_cache (fst (step s' (Tick i))))
                   (segment, yar_id (out_yar (lifecycle rt (srv_cache s) rq)))
                 = Some \<lparr> item = item e, ttl = 31536000000 \<rparr>)
       \<and> cache_get (srv_cache (fst (run s [Req rq, Tick (length (srv_pending s))])))
             (segment, yar_id (out_yar (lifecycle rt (srv_cache s) rq)))
           = Some \<lparr> item = yar_store (out_yar (lifecycle rt (srv_cache s) rq)),
                    ttl = 31536000000 \<rparr>"
proof -
  let ?out = "lifecycle rt (srv_cache s) rq"
  let ?fid = "(segment, yar_id (out_yar ?out))"
  note out = remember_outcome[OF assms]
  have ck: "cookie_ttl ?out = Some 31536000000"
    by (simp add: cookie_ttl_def out(1) h_state_def ext_ttl)
  have later: "cache_get (srv_cache (fst (step s' (Tick i)))) ?fid
                 = Some \<lparr> item = item e, ttl = 31536000000 \<rparr>"
    if "i < length (srv_pending s') \<and> srv_pending s' ! i = GetThenSet ?fid
        \<and> cache_get (srv_cache s') ?fid = Some e" for s' i e
  proof -
    from that have "srv_cache (fst (step s' (Tick i)))
                      = cache_set (srv_cache s') ?fid (item e) (oneDay * 365)"
      by (intro chain_rewrites) simp_all
    then show ?thesis
      by (simp add: cache_get_def cache_set_def ext_ttl)
  qed
  have own: "cache_get (srv_cache (fst (run s [Req rq, Tick (length (srv_pending s))]))) ?fid
               = Some \<lparr> item = yar_store (out_yar ?out), ttl = 31536000000 \<rparr>"
    unfolding remember_then_tick[OF assms]
    by (simp add: cache_get_def cache_set_def ext_ttl)
  show ?thesis
    using ck out(2) later own by blast
qed

text \<open>The login of alice with \<open>remember: true\<close>, on an empty cache, followed by her
  chain.\<close>

theorem remember_extends_ttl_witness:
  "lookup_route (req_method login_alice) (req_path login_alice) = Some route_login
   \<and> rt_yarring route_login
   \<and> read_prop (yar_get (out_yar (lifecycle route_login (srv_cache start) login_alice)) ''data'')
        ''remember'' = Inr (JBool True)
   \<and> truthy (JBool True)
   \<and> cookie_ttl (lifecycle route_login (srv_cache start) login_alice) = Some 31536000000
   \<and> cache_get (srv_cache (fst (run start [Req login_alice, Tick 0]))) (segment, ''s1'')
       = Some \<lparr> item = [(''data'', JObj [(''username'', JStr ''alice''),
                                          (''remember'', JBool True), (''auth'', JBool True)])],
                ttl = 31536000000 \<rparr>"
proof -
  have b: "rt_yarring route_login"
    by (simp add: route_login_def)
  have c: "read_prop (yar_get (out_yar (lifecycle route_login (srv_cache start) login_alice)) ''data'')
             ''remember'' = Inr (JBool True)"
    using alice_remember by (simp add: start_def)
  have d: "truthy (JBool True)" by simp
  have e: "out_yar (lifecycle route_login (srv_cache start) login_alice) =
             \<lparr> yar_id = ''s1'',
               yar_store = [(''data'', JObj [(''username'', JStr ''alice''),
                                             (''remember'', JBool True), (''auth'', JBool True)])],
               yar_deleting = False \<rparr>"
    using alice_session by (simp add: start_def)
  have f: "length (srv_pending start) = 0"
    by (simp add: start_def)
  note th = remember_extends_ttl[OF alice_lookup b c d, unfolded f]
  have g: "cache_get (srv_cache (fst (run start [Req login_alice, Tick 0]))) (segment, ''s1'')
       = Some \<lparr> item = [(''data'', JObj [(''username'', JStr ''alice''),
                                          (''remember'', JBool True), (''auth'', JBool True)])],
                ttl = 31536000000 \<rparr>"
    using th by (simp add: e)
  show ?thesis
    using alice_lookup b c d th g by blast
qed

text \<open>
  C1 as stated fails. In the run where the response to alice's login is out before
  the chain runs, the cache entry has the default time to live at that point. And in
  the run where her entry is evicted before the chain's read, the chain has run and
  the entry has not got the extended time to live.
\<close>

theorem remember_cache_ttl_counterexample:
  "cache_ttl (srv_cache (fst (step start (Req login_alice)))) ''s1'' = Some 86400000
   \<and> cache_ttl (srv_cache (fst (step start (Req login_alice)))) ''s1'' \<noteq> Some 31536000000
   \<and> srv_pending (fst (step start (Req login_alice))) = [GetThenSet (segment, ''s1'')]
   \<and> get_prop (yar_get (out_yar (lifecycle route_login Map.empty login_alice)) ''data'') ''remember''
       = JBool True
   \<and> srv_pending (fst (run start [Req login_alice, Evict (segment, ''s1''), Tick 0])) = []
   \<and> cache_ttl (srv_cache (fst (run start [Req login_alice, Evict (segment, ''s1''), Tick 0]))) ''s1''
       \<noteq> Some 31536000000"
  by (simp add: alice_lookup start_def Let_def alice_outcome cache_ttl_def cache_get_def
      cache_set_def cache_drop_def callback_def yar_get_def oneDay_def)

text \<open>
  C2, at an input where the code departs from it. POST /login with an empty username
  stores a payload of the data model whose \<open>auth\<close> flag is \<open>true\<close>. On that payload
  the authenticator yields neither the credentials \<open>data.username\<close> nor
  \<open>Boom.unauthorized\<close>: \<open>h.authenticated\<close> throws an AssertionError.
\<close>

theorem authenticate_empty_username:
  "out_yar (lifecycle route_login Map.empty login_nameless) = nameless
   \<and> flag_boolean (yar_get nameless ''data'')
   \<and> \<not> nullish (yar_get nameless ''data'')
   \<and> get_prop (yar_get nameless ''data'') ''auth'' = JBool True
   \<and> authenticate nameless = Inl AssertionError
   \<and> authenticate nameless \<noteq> Inr (get_prop (yar_get nameless ''data'') ''username'')
   \<and> authenticate nameless \<noteq> Inl (Unauthorized ''Please GTFO.'')"
proof -
  have a: "out_yar (lifecycle route_login Map.empty login_nameless) = nameless"
    by (simp add: out_yar_lifecycle auth_step_def authenticate_def resolve_def
        login_nameless_def yar_get_def invoke_def route_login_def mode_of_def
        handler_login_def yar_set_def nameless_def)
  have d: "yar_get nameless ''data'' =
             JObj [(''username'', JStr []), (''remember'', JBool False), (''auth'', JBool True)]"
    by (simp add: nameless_def yar_get_def)
  have b: "authenticate nameless = Inl AssertionError"
    by (simp add: authenticate_def h_authenticated_def d)
  show ?thesis
    by (simp add: a b d flag_boolean_def)
qed

text \<open>
  C3 (as amended). For every request to a route flagged \<open>yarring\<close> whose flushed
  payload has a true \<open>remember\<close>, when the cache entry vanishes after the flush and
  before the promise chain of the hook runs: no cache write occurs, the entry stays
  absent and the trace gains no event; the hook has not failed the response; and the
  response has set the cookie with the extended time to live, 31,536,000,000 ms.
\<close>

theorem vanished_entry:
  assumes "lookup_route (req_method rq) (req_path rq) = Some rt"
    and "rt_yarring rt"
    and "read_prop (yar_get (out_yar (lifecycle rt (srv_cache s) rq)) ''data'') ''remember'' = Inr r"
    and "truthy r"
  shows "map cookie_ttl
           (snd (run s [Req rq, Evict (segment, yar_id (out_yar (lifecycle rt (srv_cache s) rq))),
                        Tick (length (srv_pending s))])) = [Some 31536000000]
       \<and> srv_cache (fst (run s [Req rq,
                                 Evict (segment, yar_id (out_yar (lifecycle rt (srv_cache s) rq))),
                                 Tick (length (srv_pending s))]))
           = cache_drop (out_cache (lifecycle rt (srv_cache s) rq))
               (segment, yar_id (out_yar (lifecycle rt (srv_cache s) rq)))
       \<and> cache_get (srv_cache (fst (run s [Req rq,
                                 Evict (segment, yar_id (out_yar (lifecycle rt (srv_cache s) rq))),
                                 Tick (length (srv_pending s))])))
               (segment, yar_id (out_yar (lifecycle rt (srv_cache s) rq))) = None
       \<and> srv_trace (fst (run s [Req rq,
                                 Evict (segment, yar_id (out_yar (lifecycle rt (srv_cache s) rq))),
                                 Tick (length (srv_pending s))]))
           = srv_trace s @ out_events (lifecycle rt (srv_cache s) rq)
       \<and> out_body (lifecycle rt (srv_cache s) rq)
           = fst (snd (auth_step rt rq (resolve options (srv_cache s) rq)))"
proof -
  let ?out = "lifecycle rt (srv_cache s) rq"
  let ?fid = "(segment, yar_id (out_yar ?out))"
  note out = remember_outcome[OF assms]
  have ck: "cookie_ttl ?out = Some 31536000000"
    by (simp add: cookie_ttl_def out(1) h_state_def ext_ttl)
  have gone: "run_chain (GetThenSet ?fid) (cache_drop (out_cache ?out) ?fid) = Inl TypeError"
    by (simp add: callback_def cache_get_def cache_drop_def)
  show ?thesis
    using ck gone out(2) out(4) assms(1)
    by (simp add: Let_def cache_get_def cache_drop_def nth_append)
qed

text \<open>The login of alice with \<open>remember: true\<close>, her entry evicted before the
  promise chain runs.\<close>

theorem vanished_entry_witness:
  "lookup_route (req_method login_alice) (req_path login_alice) = Some route_login
   \<and> rt_yarring route_login
   \<and> read_prop (yar_get (out_yar (lifecycle route_login (srv_cache start) login_alice)) ''data'')
        ''remember'' = Inr (JBool True)
   \<and> truthy (JBool True)
   \<and> map cookie_ttl (snd (run start [Req login_alice, Evict (segment, ''s1''), Tick 0]))
       = [Some 31536000000]
   \<and> cache_get (srv_cache (fst (run start [Req login_alice, Evict (segment, ''s1''), Tick 0])))
       (segment, ''s1'') = None"
proof -
  have b: "rt_yarring route_login"
    by (simp add: route_login_def)
  have c: "read_prop (yar_get (out_yar (lifecycle route_login (srv_cache start) login_alice)) ''data'')
             ''remember'' = Inr (JBool True)"
    using alice_remember by (simp add: start_def)
  have d: "truthy (JBool True)" by simp
  have e: "yar_id (out_yar (lifecycle route_login (srv_cache start) login_alice)) = ''s1''"
    by (simp add: start_def alice_session)
  have f: "length (srv_pending start) = 0"
    by (simp add: start_def)
  note th = vanished_entry[OF alice_lookup b c d, unfolded e f]
  show ?thesis
    using alice_lookup b c d th by blast
qed

text \<open>
  C3 as stated fails: in that run the cookie has the extended time to live, not the
  default one, and the callback has thrown.
\<close>

theorem vanished_entry_counterexample:
  "map cookie_ttl (snd (run start [Req login_alice, Evict (segment, ''s1''), Tick 0]))
     = [Some 31536000000]
   \<and> map cookie_ttl (snd (run start [Req login_alice, Evict (segment, ''s1''), Tick 0]))
     \<noteq> [Some 86400000]
   \<and> srv_unhandled (fst (run start [Req login_alice, Evict (segment, ''s1''), Tick 0]))
     = [TypeError]"
proof -
  show ?thesis
    by (simp add: alice_lookup start_def Let_def alice_outcome cookie_ttl_def h_state_def ext_ttl
        callback_def cache_get_def cache_drop_def cache_set_def)
qed

text \<open>
  C4. For every authenticated session, a GET /logout request removes the session
  payload entirely and deletes the cache entry: a later resolve for the same session
  id yields an empty payload, and the authenticator rejects it.
\<close>

theorem logout_clears:
  assumes "req_method rq = ''GET''" and "req_path rq = ''/logout''"
    and "req_cookie rq = Some sid"
    and "authenticate (resolve options (srv_cache s) rq) = Inr u"
  shows "snd (step s (Req rq)) = Some (lifecycle route_logout (srv_cache s) rq)
       \<and> yar_store (out_yar (lifecycle route_logout (srv_cache s) rq)) = []
       \<and> cache_get (srv_cache (fst (step s (Req rq)))) (segment, sid) = None
       \<and> (\<forall>rq'. req_cookie rq' = Some sid \<longrightarrow>
             yar_store (resolve options (srv_cache (fst (step s (Req rq)))) rq') = []
           \<and> authenticate (resolve options (srv_cache (fst (step s (Req rq)))) rq')
               = Inl (Unauthorized ''Please GTFO.''))"
proof -
  let ?out = "lifecycle route_logout (srv_cache s) rq"
  have y: "out_yar ?out = \<lparr> yar_id = sid, yar_store = [], yar_deleting = True \<rparr>"
    using assms(3,4)
    by (simp add: out_yar_lifecycle auth_step_def invoke_def route_logout_def handler_logout_def
        yar_clear_def resolve_def)
  have c: "out_cache ?out = cache_drop (srv_cache s) (segment, sid)"
    by (simp add: out_cache_lifecycle y flush_options)
  have st: "step s (Req rq) =
              (s\<lparr> srv_cache := out_cache ?out,
                   srv_pending := srv_pending s @ out_pending ?out,
                   srv_trace := srv_trace s @ out_events ?out \<rparr>, Some ?out)"
    using assms(1,2) by (simp add: lookup_logout Let_def)
  have gone: "cache_get (srv_cache (fst (step s (Req rq)))) (segment, sid) = None"
    unfolding st by (simp add: c cache_get_def cache_drop_def)
  have later: "yar_store (resolve options (srv_cache (fst (step s (Req rq)))) rq') = []
             \<and> authenticate (resolve options (srv_cache (fst (step s (Req rq)))) rq')
                 = Inl (Unauthorized ''Please GTFO.'')"
    if "req_cookie rq' = Some sid" for rq'
    using that gone
    by (simp add: resolve_def options_def authenticate_def yar_get_def)
  have "snd (step s (Req rq)) = Some ?out"
    unfolding st by simp
  moreover have "yar_store (out_yar ?out) = []"
    by (simp add: y)
  ultimately show ?thesis
    using gone later by blast
qed

text \<open>Alice logs out; her next request to /secured resolves to an empty session.\<close>

theorem logout_clears_witness:
  "req_method logout_alice = ''GET'' \<and> req_path logout_alice = ''/logout''
   \<and> req_cookie logout_alice = Some ''s1''
   \<and> authenticate (resolve options (srv_cache (start\<lparr> srv_cache := alice_cache \<rparr>)) logout_alice)
       = Inr (JStr ''alice'')
   \<and> cache_get (srv_cache (fst (step (start\<lparr> srv_cache := alice_cache \<rparr>) (Req logout_alice))))
       (segment, ''s1'') = None
   \<and> req_cookie secured_alice = Some ''s1''
   \<and> authenticate (resolve options
        (srv_cache (fst (step (start\<lparr> srv_cache := alice_cache \<rparr>) (Req logout_alice))))
        secured_alice) = Inl (Unauthorized ''Please GTFO.'')"
proof -
  have a: "req_method logout_alice = ''GET''" and b: "req_path logout_alice = ''/logout''"
    and c: "req_cookie logout_alice = Some ''s1''"
    by (simp_all add: logout_alice_def)
  have d: "authenticate (resolve options (srv_cache (start\<lparr> srv_cache := alice_cache \<rparr>)) logout_alice)
             = Inr (JStr ''alice'')"
    by (simp add: authenticate_def h_authenticated_def resolve_def logout_alice_def
        options_def alice_cache_def cache_get_def cache_set_def yar_get_def alice_def)
  have e: "req_cookie secured_alice = Some ''s1''"
    by (simp add: secured_alice_def)
  note th = logout_clears[OF a b c d]
  from th have "authenticate (resolve options
        (srv_cache (fst (step (start\<lparr> srv_cache := alice_cache \<rparr>) (Req logout_alice))))
        secured_alice) = Inl (Unauthorized ''Please GTFO.'')"
    using e by blast
  then show ?thesis
    using a b c d e th by blast
qed

text \<open>
  C5. For every POST /login request whose body omits \<open>remember\<close> or gives a falsy
  value, the stored payload has \<open>remember = false\<close>; after the request the cache
  entry and the cookie both have the default time to live, 86,400,000 ms; the hook
  starts no cache rewrite and sets no cookie.
\<close>

theorem login_without_remember:
  assumes "req_method rq = ''POST''" and "req_path rq = ''/login''"
    and "\<not> nullish (req_payload rq)"
    and "\<not> truthy (get_prop (req_payload rq) ''remember'')"
  shows "snd (step s (Req rq)) = Some (lifecycle route_login (srv_cache s) rq)
       \<and> get_prop (yar_get (out_yar (lifecycle route_login (srv_cache s) rq)) ''data'') ''remember''
           = JBool False
       \<and> cache_get (srv_cache (fst (step s (Req rq))))
             (segment, yar_id (out_yar (lifecycle route_login (srv_cache s) rq)))
           = Some \<lparr> item = yar_store (out_yar (lifecycle route_login (srv_cache s) rq)),
                    ttl = 86400000 \<rparr>
       \<and> cookie_ttl (lifecycle route_login (srv_cache s) rq) = Some 86400000
       \<and> srv_pending (fst (step s (Req rq))) = srv_pending s
       \<and> (\<forall>e \<in> set (out_events (lifecycle route_login (srv_cache s) rq)). \<not> reconcile_event e)"
proof -
  let ?out = "lifecycle route_login (srv_cache s) rq"
  let ?y0 = "resolve options (srv_cache s) rq"
  let ?data = "JObj [(''username'', get_prop (req_payload rq) ''username''),
                     (''remember'', JBool False), (''auth'', JBool True)]"
  have g: "auth_step route_login rq ?y0 =
             (yar_set ?y0 ''data'' ?data, Redirect ''/'',
              [HandlerCalled (case authenticate ?y0 of Inl e \<Rightarrow> False | Inr v \<Rightarrow> True)])"
    using assms(3,4)
    by (simp add: auth_step_def invoke_def route_login_def handler_login_def mode_of_def Let_def
        split: sum.splits)
  have y: "out_yar ?out = yar_set ?y0 ''data'' ?data"
    by (simp add: out_yar_lifecycle g)
  have data: "yar_get (out_yar ?out) ''data'' = ?data"
    by (simp add: y yar_get_def yar_set_def update_conv')
  have nd: "\<not> yar_deleting (out_yar ?out)"
    by (simp add: y yar_set_def resolve_deleting)
  have hook: "onPreResponse route_login (out_yar ?out)
                (fst (snd (flush options (out_yar ?out) (srv_cache s) Map.empty)))
              = Inr (fst (snd (flush options (out_yar ?out) (srv_cache s) Map.empty)), [], [])"
    by (rule hook_forget[where r = "JBool False"]) (simp_all add: data read_prop_def)
  note ok = lifecycle_hook_ok[OF hook]
  have st: "step s (Req rq) =
              (s\<lparr> srv_cache := out_cache ?out,
                   srv_pending := srv_pending s @ out_pending ?out,
                   srv_trace := srv_trace s @ out_events ?out \<rparr>, Some ?out)"
    using assms(1,2) by (simp add: lookup_login Let_def)
  have ck: "cookie_ttl ?out = Some 86400000"
    using ok nd by (simp add: cookie_ttl_def flush_options h_state_def oneDay_def)
  have entry: "cache_get (out_cache ?out) (segment, yar_id (out_yar ?out))
                 = Some \<lparr> item = yar_store (out_yar ?out), ttl = 86400000 \<rparr>"
    using nd by (simp add: out_cache_lifecycle flush_options cache_get_def cache_set_def oneDay_def)
  have ev: "out_events ?out =
              [HandlerCalled (case authenticate ?y0 of Inl e \<Rightarrow> False | Inr v \<Rightarrow> True),
               FlushSet (segment, yar_id (out_yar ?out)) oneDay, FlushCookie cookie oneDay]"
    using ok nd by (simp add: g flush_options)
  have pend: "out_pending ?out = []"
    using ok by simp
  show ?thesis
    unfolding st by (simp add: data ev ck entry pend)
qed

text \<open>Bob logs in without \<open>remember\<close>.\<close>

theorem login_without_remember_witness:
  "req_method login_bob = ''POST'' \<and> req_path login_bob = ''/login''
   \<and> \<not> nullish (req_payload login_bob)
   \<and> \<not> truthy (get_prop (req_payload login_bob) ''remember'')
   \<and> cookie_ttl (lifecycle route_login (srv_cache start) login_bob) = Some 86400000
   \<and> srv_pending (fst (step start (Req login_bob))) = []
   \<and> FlushCookie cookie 86400000
        \<in> set (out_events (lifecycle route_login (srv_cache start) login_bob))
   \<and> \<not> reconcile_event (FlushCookie cookie 86400000)"
proof -
  have a: "req_method login_bob = ''POST''" and b: "req_path login_bob = ''/login''"
    and c: "\<not> nullish (req_payload login_bob)"
    and d: "\<not> truthy (get_prop (req_payload login_bob) ''remember'')"
    by (simp_all add: login_bob_def)
  have e: "srv_pending start = []"
    by (simp add: start_def)
  have m: "FlushCookie cookie 86400000
             \<in> set (out_events (lifecycle route_login (srv_cache start) login_bob))"
    by (simp add: lifecycle_def auth_step_def authenticate_def resolve_def login_bob_def
        yar_get_def invoke_def route_login_def mode_of_def handler_login_def yar_set_def
        flush_options onPreResponse_def read_prop_def Let_def start_def oneDay_def)
  note th = login_without_remember[OF a b c d, of start, unfolded e]
  show ?thesis
    using a b c d m th by blast
qed

text \<open>
  C6, at an input where the code departs from it. POST /user states no mode and is in
  mode required. A POST /user request without a session is rejected by the
  authenticator with Unauthorized and its handler is not called, but the response is
  not that failure: the hook, which runs for this route, reads \<open>.remember\<close> of the
  absent payload, and its TypeError replaces the response.
\<close>

theorem anonymous_user_update:
  "lookup_route (req_method user_anon) (req_path user_anon) = Some route_user
   \<and> mode_of route_user = Required
   \<and> authenticate (resolve options Map.empty user_anon) = Inl (Unauthorized ''Please GTFO.'')
   \<and> out_events (lifecycle route_user Map.empty user_anon)
       = [AuthRejected (Unauthorized ''Please GTFO.''), FlushSet (segment, ''s8'') 86400000,
          FlushCookie cookie 86400000]
   \<and> out_body (lifecycle route_user Map.empty user_anon) = Failure TypeError
   \<and> out_body (lifecycle route_user Map.empty user_anon) \<noteq> Failure (Unauthorized ''Please GTFO.'')"
proof -
  have a: "lookup_route (req_method user_anon) (req_path user_anon) = Some route_user"
    by (simp add: user_anon_def lookup_user)
  have m: "mode_of route_user = Required"
    by (simp add: mode_of_def route_user_def auth_default_def)
  have y: "resolve options Map.empty user_anon
             = \<lparr> yar_id = ''s8'', yar_store = [], yar_deleting = False \<rparr>"
    by (simp add: resolve_def user_anon_def)
  have u: "authenticate (resolve options Map.empty user_anon) = Inl (Unauthorized ''Please GTFO.'')"
    by (simp add: y authenticate_def yar_get_def)
  have g: "auth_step route_user user_anon (resolve options Map.empty user_anon)
             = (resolve options Map.empty user_anon, Failure (Unauthorized ''Please GTFO.''),
                [AuthRejected (Unauthorized ''Please GTFO.'')])"
    by (simp add: auth_step_def u m)
  have out: "lifecycle route_user Map.empty user_anon
      = \<lparr> out_cache = cache_set Map.empty (segment, ''s8'') [] oneDay,
          out_body = Failure TypeError,
          out_states = h_state Map.empty cookie (JObj [(''id'', JStr ''s8'')]) oneDay,
          out_yar = \<lparr> yar_id = ''s8'', yar_store = [], yar_deleting = False \<rparr>,
          out_pending = [],
          out_events = [AuthRejected (Unauthorized ''Please GTFO.''),
                        FlushSet (segment, ''s8'') oneDay, FlushCookie cookie oneDay] \<rparr>"
    unfolding lifecycle_def g
    by (simp add: y flush_options onPreResponse_def route_user_def read_prop_def yar_get_def)
  show ?thesis
    using a m u by (simp add: out oneDay_def)
qed

text \<open>
  C7. For every POST /login request with a body, whatever the password (absent, or any
  value), the handler stores \<open>auth = true\<close> with the supplied username, and the
  flush writes that payload to the cache entry of the session: the stored payload does
  not depend on the password. Where the supplied username is truthy the authenticator
  accepts the stored payload as that username.
\<close>

theorem login_checks_nothing:
  assumes "req_method rq = ''POST''" and "req_path rq = ''/login''"
    and "\<not> nullish (req_payload rq)"
  shows "snd (step s (Req rq)) = Some (lifecycle route_login (srv_cache s) rq)
       \<and> yar_get (out_yar (lifecycle route_login (srv_cache s) rq)) ''data''
           = JObj [(''username'', get_prop (req_payload rq) ''username''),
                   (''remember'', JBool (truthy (get_prop (req_payload rq) ''remember''))),
                   (''auth'', JBool True)]
       \<and> map_option item (cache_get (srv_cache (fst (step s (Req rq))))
              (segment, yar_id (out_yar (lifecycle route_login (srv_cache s) rq))))
           = Some (yar_store (out_yar (lifecycle route_login (srv_cache s) rq)))
       \<and> (truthy (get_prop (req_payload rq) ''username'') \<longrightarrow>
             authenticate (out_yar (lifecycle route_login (srv_cache s) rq))
               = Inr (get_prop (req_payload rq) ''username''))
       \<and> (\<forall>fs pw. req_payload rq = JObj fs \<longrightarrow>
             out_yar (lifecycle route_login (srv_cache s)
                        (rq\<lparr> req_payload := JObj (AList.update ''password'' pw fs) \<rparr>))
               = out_yar (lifecycle route_login (srv_cache s) rq)
           \<and> out_yar (lifecycle route_login (srv_cache s)
                        (rq\<lparr> req_payload := JObj (AList.delete ''password'' fs) \<rparr>))
               = out_yar (lifecycle route_login (srv_cache s) rq))"
proof -
  let ?data = "\<lambda>p. JObj [(''username'', get_prop p ''username''),
                         (''remember'', JBool (truthy (get_prop p ''remember''))),
                         (''auth'', JBool True)]"
  have y: "out_yar (lifecycle route_login c r) = yar_set (resolve options c r) ''data'' (?data (req_payload r))"
    if "\<not> nullish (req_payload r)" for c r
    using that
    by (simp add: out_yar_lifecycle auth_step_def invoke_def route_login_def handler_login_def
        mode_of_def Let_def split: sum.splits)
  have res: "resolve options c (r\<lparr> req_payload := p \<rparr>) = resolve options c r" for c r p
    by (simp add: resolve_def split: option.splits)
  have data: "yar_get (out_yar (lifecycle route_login (srv_cache s) rq)) ''data''
                = ?data (req_payload rq)"
    by (simp add: y[OF assms(3)] yar_get_def yar_set_def update_conv')
  have auth: "authenticate (out_yar (lifecycle route_login (srv_cache s) rq))
                = Inr (get_prop (req_payload rq) ''username'')"
    if "truthy (get_prop (req_payload rq) ''username'')"
    using that by (simp add: authenticate_def h_authenticated_def data)
  have st: "snd (step s (Req rq)) = Some (lifecycle route_login (srv_cache s) rq)"
    using assms(1,2) by (simp add: lookup_login Let_def)
  have nd: "\<not> yar_deleting (out_yar (lifecycle route_login (srv_cache s) rq))"
    by (simp add: y[OF assms(3)] yar_set_def resolve_deleting)
  have sc: "srv_cache (fst (step s (Req rq))) = out_cache (lifecycle route_login (srv_cache s) rq)"
    using assms(1,2) by (simp add: lookup_login Let_def)
  have entry: "map_option item (cache_get (srv_cache (fst (step s (Req rq))))
              (segment, yar_id (out_yar (lifecycle route_login (srv_cache s) rq))))
           = Some (yar_store (out_yar (lifecycle route_login (srv_cache s) rq)))"
    unfolding sc using nd
    by (simp add: out_cache_lifecycle flush_options cache_get_def cache_set_def)
  have indep: "out_yar (lifecycle route_login (srv_cache s)
                        (rq\<lparr> req_payload := JObj (AList.update ''password'' pw fs) \<rparr>))
               = out_yar (lifecycle route_login (srv_cache s) rq)
           \<and> out_yar (lifecycle route_login (srv_cache s)
                        (rq\<lparr> req_payload := JObj (AList.delete ''password'' fs) \<rparr>))
               = out_yar (lifecycle route_login (srv_cache s) rq)"
    if "req_payload rq = JObj fs" for fs pw
    using that by (simp add: y res update_conv' delete_conv')
  show ?thesis
    using st data entry auth indep by blast
qed

text \<open>Bob logs in with a password that nothing checks.\<close>

theorem login_checks_nothing_witness:
  "req_method login_bob = ''POST'' \<and> req_path login_bob = ''/login''
   \<and> \<not> nullish (req_payload login_bob)
   \<and> truthy (JStr ''bob'')
   \<and> authenticate (out_yar (lifecycle route_login (srv_cache start) login_bob))
       = Inr (JStr ''bob'')
   \<and> req_payload login_bob = JObj [(''username'', JStr ''bob''), (''password'', JStr ''wrong'')]
   \<and> out_yar (lifecycle route_login (srv_cache start)
        (login_bob\<lparr> req_payload := JObj [(''username'', JStr ''bob'')] \<rparr>))
       = out_yar (lifecycle route_login (srv_cache start) login_bob)"
proof -
  have a: "req_method login_bob = ''POST''" and b: "req_path login_bob = ''/login''"
    and c: "\<not> nullish (req_payload login_bob)"
    and d: "req_payload login_bob = JObj [(''username'', JStr ''bob''), (''password'', JStr ''wrong'')]"
    and e: "get_prop (req_payload login_bob) ''username'' = JStr ''bob''"
    by (simp_all add: login_bob_def)
  have t: "truthy (JStr ''bob'')"
    by simp
  have f: "AList.delete ''password'' [(''username'', JStr ''bob''), (''password'', JStr ''wrong'')]
             = [(''username'', JStr ''bob'')]"
    by simp
  note th = login_checks_nothing[OF a b c, of start, unfolded e]
  from th d have "out_yar (lifecycle route_login (srv_cache start)
        (login_bob\<lparr> req_payload := JObj (AList.delete ''password''
           [(''username'', JStr ''bob''), (''password'', JStr ''wrong'')]) \<rparr>))
       = out_yar (lifecycle route_login (srv_cache start) login_bob)"
    by blast
  then show ?thesis
    unfolding f using a b c d t th by blast
qed

text \<open>
  C8. For every POST /user request on an authenticated session, the handler changes
  the \<open>username\<close> field of the payload and nothing else: \<open>auth\<close>, \<open>remember\<close> and
  every other field keep their values, and so does every other key of the session.
  With a body, the new username is the supplied one. The reconciliation then follows
  the \<open>remember\<close> flag the session already had. When it is true, the response sets
  the cookie with the extended time to live and the hook starts its cache rewrite,
  which, run on the cache as the request left it, stores the updated payload with the
  extended time to live, 31,536,000,000 ms. When it is not, no rewrite is started, and
  the cookie and the cache entry with the updated payload have the default time to
  live, 86,400,000 ms.
\<close>

theorem user_update_frame:
  assumes "req_method rq = ''POST''" and "req_path rq = ''/user''"
    and "authenticate (resolve options (srv_cache s) rq) = Inr u"
  shows "lookup_route (req_method rq) (req_path rq) = Some route_user
       \<and> (\<forall>k. k \<noteq> ''username'' \<longrightarrow>
             get_prop (yar_get (out_yar (lifecycle route_user (srv_cache s) rq)) ''data'') k
               = get_prop (yar_get (resolve options (srv_cache s) rq) ''data'') k)
       \<and> get_prop (yar_get (out_yar (lifecycle route_user (srv_cache s) rq)) ''data'') ''auth''
           = get_prop (yar_get (resolve options (srv_cache s) rq) ''data'') ''auth''
       \<and> get_prop (yar_get (out_yar (lifecycle route_user (srv_cache s) rq)) ''data'') ''remember''
           = get_prop (yar_get (resolve options (srv_cache s) rq) ''data'') ''remember''
       \<and> (\<forall>k. k \<noteq> ''data'' \<longrightarrow>
             yar_get (out_yar (lifecycle route_user (srv_cache s) rq)) k
               = yar_get (resolve options (srv_cache s) rq) k)
       \<and> (\<not> nullish (req_payload rq) \<longrightarrow>
             get_prop (yar_get (out_yar (lifecycle route_user (srv_cache s) rq)) ''data'') ''username''
               = get_prop (req_payload rq) ''username'')
       \<and> cookie_ttl (lifecycle route_user (srv_cache s) rq)
           = Some (if truthy (get_prop (yar_get (resolve options (srv_cache s) rq) ''data'') ''remember'')
                   then 31536000000 else 86400000)
       \<and> out_pending (lifecycle route_user (srv_cache s) rq)
           = (if truthy (get_prop (yar_get (resolve options (srv_cache s) rq) ''data'') ''remember'')
              then [GetThenSet (segment, yar_id (resolve options (srv_cache s) rq))] else [])
       \<and> cache_get (srv_cache (fst (run s [Req rq, Tick (length (srv_pending s))])))
             (segment, yar_id (resolve options (srv_cache s) rq))
           = Some \<lparr> item = yar_store (out_yar (lifecycle route_user (srv_cache s) rq)),
                    ttl = (if truthy (get_prop (yar_get (resolve options (srv_cache s) rq) ''data'')
                                        ''remember'')
                           then 31536000000 else 86400000) \<rparr>"
proof -
  let ?c = "srv_cache s"
  let ?y0 = "resolve options ?c rq"
  let ?out = "lifecycle route_user ?c rq"
  obtain fs where fs: "yar_get ?y0 ''data'' = JObj fs"
    using authenticate_object[OF assms(3)] by blast
  have lk: "lookup_route (req_method rq) (req_path rq) = Some route_user"
    using assms(1,2) by (simp add: lookup_user)
  have yr: "rt_yarring route_user"
    by (simp add: route_user_def)
  have g: "fst (auth_step route_user rq ?y0) =
             (if nullish (req_payload rq) then ?y0
              else yar_set ?y0 ''data''
                     (JObj (AList.update ''username'' (get_prop (req_payload rq) ''username'') fs)))"
    using assms(3)
    by (simp add: auth_step_def invoke_def route_user_def handler_user_def Let_def fs read_prop_def)
  have y: "out_yar ?out =
             (if nullish (req_payload rq) then ?y0
              else yar_set ?y0 ''data''
                     (JObj (AList.update ''username'' (get_prop (req_payload rq) ''username'') fs)))"
    by (simp add: out_yar_lifecycle g)
  have data: "yar_get (out_yar ?out) ''data'' =
             (if nullish (req_payload rq) then JObj fs
              else JObj (AList.update ''username'' (get_prop (req_payload rq) ''username'') fs))"
    by (simp add: y fs) (simp add: yar_get_def yar_set_def update_conv')
  have frame: "get_prop (yar_get (out_yar ?out) ''data'') k = get_prop (yar_get ?y0 ''data'') k"
    if "k \<noteq> ''username''" for k
    using that by (simp add: data fs update_conv')
  have keys: "yar_get (out_yar ?out) k = yar_get ?y0 k" if "k \<noteq> ''data''" for k
    using that by (simp add: y yar_get_def yar_set_def update_conv')
  have name: "get_prop (yar_get (out_yar ?out) ''data'') ''username''
                = get_prop (req_payload rq) ''username''"
    if "\<not> nullish (req_payload rq)"
    using that by (simp add: data update_conv')
  have id: "yar_id (out_yar ?out) = yar_id ?y0"
    by (simp add: y yar_set_def)
  have nd: "\<not> yar_deleting (out_yar ?out)"
    by (simp add: y yar_set_def resolve_deleting)
  have rd: "read_prop (yar_get (out_yar ?out) ''data'') ''remember''
              = Inr (get_prop (yar_get ?y0 ''data'') ''remember'')"
    using frame[of "''remember''"] by (simp add: read_prop_def data)
  have ttl: "cookie_ttl ?out
           = Some (if truthy (get_prop (yar_get ?y0 ''data'') ''remember'')
                   then 31536000000 else 86400000)
       \<and> out_pending ?out
           = (if truthy (get_prop (yar_get ?y0 ''data'') ''remember'')
              then [GetThenSet (segment, yar_id ?y0)] else [])
       \<and> cache_get (srv_cache (fst (run s [Req rq, Tick (length (srv_pending s))])))
             (segment, yar_id ?y0)
           = Some \<lparr> item = yar_store (out_yar ?out),
                    ttl = (if truthy (get_prop (yar_get ?y0 ''data'') ''remember'')
                           then 31536000000 else 86400000) \<rparr>"
  proof (cases "truthy (get_prop (yar_get ?y0 ''data'') ''remember'')")
    case True
    note out = remember_outcome[OF lk yr rd True]
    have "cache_get (srv_cache (fst (run s [Req rq, Tick (length (srv_pending s))])))
             (segment, yar_id ?y0)
           = Some \<lparr> item = yar_store (out_yar ?out), ttl = 31536000000 \<rparr>"
      unfolding remember_then_tick[OF lk yr rd True]
      by (simp add: cache_get_def cache_set_def ext_ttl id)
    then show ?thesis
      using True by (simp add: cookie_ttl_def out(1) out(2) h_state_def ext_ttl id)
  next
    case False
    note ok = lifecycle_hook_ok[OF hook_forget[OF rd False]]
    have pend: "out_pending ?out = []"
      using ok by simp
    have "cache_get (srv_cache (fst (run s [Req rq, Tick (length (srv_pending s))])))
             (segment, yar_id ?y0)
           = Some \<lparr> item = yar_store (out_yar ?out), ttl = 86400000 \<rparr>"
      unfolding forget_then_tick[OF lk pend] using nd
      by (simp add: out_cache_lifecycle flush_options cache_get_def cache_set_def oneDay_def id)
    then show ?thesis
      using False ok nd by (simp add: cookie_ttl_def flush_options h_state_def oneDay_def)
  qed
  have fa: "get_prop (yar_get (out_yar ?out) ''data'') ''auth''
              = get_prop (yar_get ?y0 ''data'') ''auth''"
    and fr: "get_prop (yar_get (out_yar ?out) ''data'') ''remember''
              = get_prop (yar_get ?y0 ''data'') ''remember''"
    by (simp_all add: frame)
  show ?thesis
    using lk frame fa fr keys name ttl by blast
qed

text \<open>Alice, logged in with \<open>remember: true\<close>, renames herself to bob.\<close>

theorem user_update_frame_witness:
  "req_method rename_bob = ''POST'' \<and> req_path rename_bob = ''/user''
   \<and> authenticate (resolve options (srv_cache (start\<lparr> srv_cache := alice_remembered \<rparr>)) rename_bob)
       = Inr (JStr ''alice'')
   \<and> \<not> nullish (req_payload rename_bob)
   \<and> get_prop (yar_get (out_yar (lifecycle route_user
          (srv_cache (start\<lparr> srv_cache := alice_remembered \<rparr>)) rename_bob)) ''data'') ''username''
       = JStr ''bob''
   \<and> get_prop (yar_get (out_yar (lifecycle route_user
          (srv_cache (start\<lparr> srv_cache := alice_remembered \<rparr>)) rename_bob)) ''data'') ''auth''
       = JBool True
   \<and> get_prop (yar_get (out_yar (lifecycle route_user
          (srv_cache (start\<lparr> srv_cache := alice_remembered \<rparr>)) rename_bob)) ''data'') ''remember''
       = JBool True
   \<and> cookie_ttl (lifecycle route_user (srv_cache (start\<lparr> srv_cache := alice_remembered \<rparr>))
                    rename_bob) = Some 31536000000
   \<and> cache_ttl (srv_cache (fst (run (start\<lparr> srv_cache := alice_remembered \<rparr>)
                                      [Req rename_bob, Tick 0]))) ''s1'' = Some 31536000000"
proof -
  let ?s = "start\<lparr> srv_cache := alice_remembered \<rparr>"
  have a: "req_method rename_bob = ''POST''" and b: "req_path rename_bob = ''/user''"
    and n: "\<not> nullish (req_payload rename_bob)"
    and p: "get_prop (req_payload rename_bob) ''username'' = JStr ''bob''"
    by (simp_all add: rename_bob_def)
  have r: "resolve options alice_remembered rename_bob =
             \<lparr> yar_id = ''s1'',
               yar_store = [(''data'', JObj [(''username'', JStr ''alice''),
                                             (''remember'', JBool True), (''auth'', JBool True)])],
               yar_deleting = False \<rparr>"
    by (simp add: resolve_def rename_bob_def options_def alice_remembered_def
        cache_get_def cache_set_def)
  have y0: "yar_get (resolve options alice_remembered rename_bob) ''data''
              = JObj [(''username'', JStr ''alice''), (''remember'', JBool True),
                      (''auth'', JBool True)]"
    by (simp add: r yar_get_def)
  have c: "authenticate (resolve options (srv_cache ?s) rename_bob) = Inr (JStr ''alice'')"
    by (simp add: authenticate_def h_authenticated_def y0)
  have q: "srv_cache ?s = alice_remembered"
    by simp
  have k: "''auth'' \<noteq> ''username''" "''remember'' \<noteq> ''username''"
    by simp_all
  have f: "length (srv_pending ?s) = 0"
    by (simp add: start_def)
  have i: "yar_id (resolve options alice_remembered rename_bob) = ''s1''"
    by (simp add: r)
  note th = user_update_frame[OF a b c, unfolded f q i y0]
  have tr: "truthy (get_prop (JObj [(''username'', JStr ''alice''), (''remember'', JBool True),
                                    (''auth'', JBool True)]) ''remember'')"
    by simp
  from th have e: "cache_get (srv_cache (fst (run ?s [Req rename_bob, Tick 0]))) (segment, ''s1'')
             = Some \<lparr> item = yar_store (out_yar (lifecycle route_user alice_remembered rename_bob)),
                      ttl = (if truthy (get_prop (JObj [(''username'', JStr ''alice''),
                                         (''remember'', JBool True), (''auth'', JBool True)])
                                         ''remember'')
                             then 31536000000 else 86400000) \<rparr>"
    by blast
  have t: "cache_ttl (srv_cache (fst (run ?s [Req rename_bob, Tick 0]))) ''s1'' = Some 31536000000"
    unfolding cache_ttl_def e using tr by simp
  from th have u: "get_prop (yar_get (out_yar (lifecycle route_user alice_remembered rename_bob))
                     ''data'') ''username'' = JStr ''bob''"
    using n p by simp
  from th k have v: "get_prop (yar_get (out_yar (lifecycle route_user alice_remembered rename_bob))
                     ''data'') ''auth'' = JBool True"
    and w: "get_prop (yar_get (out_yar (lifecycle route_user alice_remembered rename_bob))
                     ''data'') ''remember'' = JBool True"
    by simp_all
  from th have x: "cookie_ttl (lifecycle route_user alice_remembered rename_bob) = Some 31536000000"
    using tr by simp
  show ?thesis
    unfolding q using a b c[unfolded q] n t[unfolded q] u v w x by blast
qed

text \<open>
  C9. Within every single request, the trace of the request and of the promise chain it
  leaves behind splits in two: a first part without any event of the reconciliation,
  a second part without any event of the flush. The flush has completed before the
  hook starts, and the cache write with the extended time to live, 31,536,000,000 ms,
  comes after the flush's write of the same entry with the default time to live,
  86,400,000 ms.
\<close>

theorem flush_before_reconcile:
  "\<exists>xs ys.
     srv_trace (fst (run s [Req rq, Tick (length (srv_pending s))])) = srv_trace s @ xs @ ys
     \<and> (\<forall>e \<in> set xs. \<not> reconcile_event e)
     \<and> (\<forall>e \<in> set ys. \<not> flush_event e)
     \<and> (\<forall>fid. HookGet fid \<in> set ys \<longrightarrow> FlushSet fid 86400000 \<in> set xs)
     \<and> (\<forall>fid t. CallbackSet fid t \<in> set ys \<longrightarrow>
           t = 31536000000 \<and> FlushSet fid 86400000 \<in> set xs)"
proof (cases "lookup_route (req_method rq) (req_path rq)")
  case None
  then have "fst (step s (Req rq)) = s"
    by simp
  then have "fst (run s [Req rq, Tick (length (srv_pending s))]) = s"
    by (simp only: fst_run_two) simp
  then have "srv_trace (fst (run s [Req rq, Tick (length (srv_pending s))])) = srv_trace s @ [] @ []"
    by simp
  then show ?thesis
    by (intro exI[of _ "[]"]) simp
next
  case (Some rt)
  let ?out = "lifecycle rt (srv_cache s) rq"
  let ?G = "snd (snd (auth_step rt rq (resolve options (srv_cache s) rq)))"
  let ?F = "snd (snd (flush options (out_yar ?out) (srv_cache s) Map.empty))"
  let ?fid = "(segment, yar_id (out_yar ?out))"
  let ?s1 = "s\<lparr> srv_cache := out_cache ?out,
                 srv_pending := srv_pending s @ out_pending ?out,
                 srv_trace := srv_trace s @ out_events ?out \<rparr>"
  have s1: "fst (step s (Req rq)) = ?s1"
    by (simp add: Some Let_def)
  have r2: "fst (run s [Req rq, Tick (length (srv_pending s))])
              = fst (step ?s1 (Tick (length (srv_pending s))))"
    by (simp only: fst_run_two s1)
  have G: "\<forall>e \<in> set ?G. \<not> reconcile_event e \<and> \<not> flush_event e"
    using auth_step_events[of rt rq "resolve options (srv_cache s) rq"] by auto
  have F: "\<forall>e \<in> set ?F. \<not> reconcile_event e"
    by (simp add: flush_options)
  from lifecycle_events[of rt "srv_cache s" rq]
  show ?thesis
  proof
    assume a: "out_events ?out = ?G @ ?F \<and> out_pending ?out = []"
    then have "step ?s1 (Tick (length (srv_pending s))) = (?s1, None)"
      by simp
    then have "srv_trace (fst (run s [Req rq, Tick (length (srv_pending s))]))
                 = srv_trace s @ (?G @ ?F) @ []"
      unfolding r2 using a by (simp del: step.simps)
    moreover have "\<forall>e \<in> set (?G @ ?F). \<not> reconcile_event e"
      using G F by auto
    ultimately show ?thesis
      by (intro exI[of _ "?G @ ?F"] exI[of _ "[]"]) simp
  next
    assume a: "rt_yarring rt
      \<and> out_events ?out = ?G @ ?F @ [HookGet ?fid, HookCookie cookie (oneDay * 365)]
      \<and> out_pending ?out = [GetThenSet ?fid]"
    have nd: "\<not> yar_deleting (out_yar ?out)"
      using auth_step_keeps[OF lookup_yarring[OF Some], of rq "resolve options (srv_cache s) rq"] a
      by (simp add: out_yar_lifecycle resolve_deleting)
    then have Fs: "?F = [FlushSet ?fid oneDay, FlushCookie cookie oneDay]"
      by (simp add: flush_options)
    have pend: "srv_pending ?s1 ! length (srv_pending s) = GetThenSet ?fid"
      "length (srv_pending s) < length (srv_pending ?s1)"
      using a by simp_all
    have "\<exists>cb. srv_trace (fst (step ?s1 (Tick (length (srv_pending s))))) = srv_trace ?s1 @ cb
            \<and> (cb = [] \<or> cb = [CallbackSet ?fid (oneDay * 365)])"
      using pend
      by (cases "cache_get (srv_cache ?s1) ?fid") (simp_all add: Let_def callback_def)
    then obtain cb where cb: "srv_trace (fst (step ?s1 (Tick (length (srv_pending s)))))
                                = srv_trace ?s1 @ cb"
      and cbs: "cb = [] \<or> cb = [CallbackSet ?fid (oneDay * 365)]"
      by blast
    let ?ys = "[HookGet ?fid, HookCookie cookie (oneDay * 365)] @ cb"
    have tr: "srv_trace (fst (run s [Req rq, Tick (length (srv_pending s))]))
                = srv_trace s @ (?G @ ?F) @ ?ys"
      unfolding r2 using a cb by (simp del: step.simps)
    have xs: "\<forall>e \<in> set (?G @ ?F). \<not> reconcile_event e"
      using G F by auto
    have ys: "\<forall>e \<in> set ?ys. \<not> flush_event e"
      using cbs by auto
    have hg: "\<forall>fid. HookGet fid \<in> set ?ys \<longrightarrow> FlushSet fid 86400000 \<in> set (?G @ ?F)"
      using cbs by (auto simp: Fs oneDay_def)
    have cs: "\<forall>fid t. CallbackSet fid t \<in> set ?ys \<longrightarrow>
                t = 31536000000 \<and> FlushSet fid 86400000 \<in> set (?G @ ?F)"
      using cbs by (auto simp: Fs oneDay_def)
    show ?thesis
      using tr xs ys hg cs by (intro exI[of _ "?G @ ?F"] exI[of _ "?ys"]) blast
  qed
qed

text \<open>The trace of alice's login with \<open>remember: true\<close>.\<close>

theorem flush_before_reconcile_witness:
  "srv_trace (fst (run start [Req login_alice, Tick (length (srv_pending start))]))
     = [HandlerCalled False, FlushSet (segment, ''s1'') 86400000,
        FlushCookie cookie 86400000, HookGet (segment, ''s1''),
        HookCookie cookie 31536000000, CallbackSet (segment, ''s1'') 31536000000]
   \<and> (\<exists>xs ys.
        srv_trace (fst (run start [Req login_alice, Tick (length (srv_pending start))]))
          = srv_trace start @ xs @ ys
        \<and> FlushSet (segment, ''s1'') 86400000 \<in> set xs
        \<and> CallbackSet (segment, ''s1'') 31536000000 \<in> set ys)"
proof -
  have tr: "srv_trace (fst (run start [Req login_alice, Tick (length (srv_pending start))]))
     = [HandlerCalled False, FlushSet (segment, ''s1'') 86400000,
        FlushCookie cookie 86400000, HookGet (segment, ''s1''),
        HookCookie cookie 31536000000, CallbackSet (segment, ''s1'') 31536000000]"
    by (simp add: alice_lookup start_def Let_def alice_outcome ext_ttl callback_def cache_get_def
        cache_set_def) (simp add: oneDay_def)
  have e: "srv_trace start = []"
    by (simp add: start_def)
  from flush_before_reconcile[of start login_alice]
  obtain xs ys where
    split: "srv_trace (fst (run start [Req login_alice, Tick (length (srv_pending start))]))
              = srv_trace start @ xs @ ys"
    and xs: "\<forall>e \<in> set xs. \<not> reconcile_event e"
    and cs: "\<forall>fid t. CallbackSet fid t \<in> set ys \<longrightarrow>
               t = 31536000000 \<and> FlushSet fid 86400000 \<in> set xs"
    by blast
  from split tr e have "CallbackSet (segment, ''s1'') 31536000000 \<in> set (xs @ ys)"
    by simp
  moreover have "CallbackSet (segment, ''s1'') 31536000000 \<notin> set xs"
    using xs by auto
  ultimately have y: "CallbackSet (segment, ''s1'') 31536000000 \<in> set ys"
    by simp
  then have x: "FlushSet (segment, ''s1'') 86400000 \<in> set xs"
    using cs by blast
  show ?thesis
    using tr split x y by blast
qed

text \<open>
  C10. The inline cookie size is configured to zero, and in every run of the server,
  from any state and through any sequence of requests, evictions and callbacks, every
  cookie a response sets is the session cookie and its value is the object that holds
  the session identifier and nothing else; it has no \<open>auth\<close> property. The payload,
  and the \<open>auth\<close> flag with it, is written to the cache entry only.
\<close>

theorem cookie_holds_id_only:
  "opt_maxCookieSize options = 0
   \<and> (\<forall>out \<in> set (snd (run s as)). \<forall>n ck. out_states out n = Some ck \<longrightarrow>
         n = cookie
       \<and> cvalue ck = JObj [(''id'', JStr (yar_id (out_yar out)))]
       \<and> get_prop (cvalue ck) ''auth'' = JUndefined)"
proof (intro conjI ballI allI impI)
  show "opt_maxCookieSize options = 0"
    by (simp add: options_def)
next
  fix out n ck
  assume "out \<in> set (snd (run s as))" and st: "out_states out n = Some ck"
  then obtain rt c rq where out: "out = lifecycle rt c rq"
    using run_outcomes by blast
  from lifecycle_states[OF st[unfolded out]]
  show "n = cookie" and v: "cvalue ck = JObj [(''id'', JStr (yar_id (out_yar out)))]"
    by (simp_all add: out)
  show "get_prop (cvalue ck) ''auth'' = JUndefined"
    by (simp add: v)
qed

text \<open>Alice logs in with \<open>remember: true\<close> and then opens /secured: the response to
  her login sets the cookie to her session identifier alone.\<close>

theorem cookie_holds_id_only_witness:
  "lifecycle route_login Map.empty login_alice
     \<in> set (snd (run start [Req login_alice, Tick 0, Req secured_alice]))
   \<and> out_states (lifecycle route_login Map.empty login_alice) cookie
       = Some \<lparr> cvalue = JObj [(''id'', JStr ''s1'')], cttl = 31536000000 \<rparr>
   \<and> cvalue \<lparr> cvalue = JObj [(''id'', JStr ''s1'')], cttl = 31536000000 \<rparr>
       = JObj [(''id'', JStr (yar_id (out_yar (lifecycle route_login Map.empty login_alice))))]
   \<and> get_prop (cvalue \<lparr> cvalue = JObj [(''id'', JStr ''s1'')], cttl = 31536000000 \<rparr>) ''auth''
       = JUndefined"
proof -
  have m: "lifecycle route_login Map.empty login_alice
             \<in> set (snd (run start [Req login_alice, Tick 0, Req secured_alice]))"
    by (simp add: alice_lookup start_def Let_def split: prod.splits)
  have st: "out_states (lifecycle route_login Map.empty login_alice) cookie
              = Some \<lparr> cvalue = JObj [(''id'', JStr ''s1'')], cttl = 31536000000 \<rparr>"
    by (simp add: alice_outcome h_state_def ext_ttl)
  note th = cookie_holds_id_only[of start "[Req login_alice, Tick 0, Req secured_alice]"]
  show ?thesis
    using m st th by blast
qed

end
